theory Spec2Isabelle
  imports Complex_Main
begin

section \<open>Decimal arithmetic\<close>

text \<open>
  Every amount of the program is a Python \<open>Decimal\<close>. A finite \<open>Decimal\<close> denotes a
  rational number, and the model keeps that number: \<open>decimal\<close> is \<open>rat\<close>. The
  arithmetic operators of \<open>Decimal\<close> (\<open>+\<close>, \<open>-\<close>, \<open>*\<close>, \<open>/\<close>, \<open>abs\<close>) return the exact
  result rounded to the precision of the default context, 28 significant digits, ties
  to even; \<open>ctx_round\<close> is that rounding. Comparisons are exact. \<open>quantize\<close> is called
  with \<open>ROUND_HALF_UP\<close> (ties away from zero) and raises \<open>InvalidOperation\<close> when the
  rounded coefficient needs more than 28 digits. \<open>Decimal(str(d))\<close> of a \<open>Decimal\<close>
  \<open>d\<close> is \<open>d\<close> again and is not written out. The special values (NaN, infinities) and
  the exponent limits of the context are outside the model.
\<close>

type_synonym decimal = rat

datatype error =
    ValueError string
  | TypeError string
  | AttributeError string
  | KeyError string
  | InvalidOperation

fun ndigits :: "nat \<Rightarrow> nat" where
  "ndigits n = (if n < 10 then 1 else Suc (ndigits (n div 10)))"

declare ndigits.simps [simp del]

definition adjusted :: "decimal \<Rightarrow> int" where
  "adjusted x =
     (if 1 \<le> \<bar>x\<bar> then int (ndigits (nat \<lfloor>\<bar>x\<bar>\<rfloor>)) - 1
      else - int (ndigits (nat (\<lceil>1 / \<bar>x\<bar>\<rceil> - 1))))"

definition round_half_even :: "rat \<Rightarrow> int" where
  "round_half_even z =
     (let f = \<lfloor>z\<rfloor>; d = z - of_int f
      in if d < 1 / 2 then f
         else if 1 / 2 < d then f + 1
         else if even f then f else f + 1)"

definition round_half_up :: "rat \<Rightarrow> int" where
  "round_half_up z = (if 0 \<le> z then \<lfloor>z + 1 / 2\<rfloor> else - \<lfloor>- z + 1 / 2\<rfloor>)"

definition ctx_round :: "decimal \<Rightarrow> decimal" where
  "ctx_round x =
     (if x = 0 then 0
      else let s = 10 powi (27 - adjusted x)
           in of_int (round_half_even (x * s)) / s)"

definition dec_add :: "decimal \<Rightarrow> decimal \<Rightarrow> decimal" where
  "dec_add x y = ctx_round (x + y)"

definition dec_sub :: "decimal \<Rightarrow> decimal \<Rightarrow> decimal" where
  "dec_sub x y = ctx_round (x - y)"

definition dec_mul :: "decimal \<Rightarrow> decimal \<Rightarrow> decimal" where
  "dec_mul x y = ctx_round (x * y)"

text \<open>Every division of the modelled code has a non-zero literal or a guarded divisor.\<close>

definition dec_div :: "decimal \<Rightarrow> decimal \<Rightarrow> decimal" where
  "dec_div x y = ctx_round (x / y)"

definition dec_abs :: "decimal \<Rightarrow> decimal" where
  "dec_abs x = ctx_round \<bar>x\<bar>"

definition quantize :: "nat \<Rightarrow> decimal \<Rightarrow> error + decimal" where
  "quantize places x =
     (let n = round_half_up (x * 10 ^ places)
      in if 10 ^ 28 \<le> \<bar>n\<bar> then Inl InvalidOperation
         else Inr (of_int n / 10 ^ places))"

text \<open>An amount at currency precision: at most two decimal places.\<close>

definition is_cents :: "decimal \<Rightarrow> bool" where
  "is_cents x \<longleftrightarrow> of_int \<lfloor>x * 100\<rfloor> = x * 100"

section \<open>Data model (models/expense_models.py)\<close>

text \<open>
  The dataclasses become records. Fields that no modelled function reads (identifiers,
  notes, dates of bills, attachments) are left out. A Python \<open>str\<close> is a list of
  characters; a \<open>char\<close> is a code point below 256, which covers every literal of the
  source. Timestamps are integers (microseconds).
\<close>

datatype SplitMethod = PERCENTAGE | FIXED | EQUAL

datatype ExpenseCategory =
    MAINTENANCE | GROCERIES | CLEANING | UTILITIES | FURNITURE
  | ELECTRONICS | GARDEN | REPAIRS | SECURITY | OTHER

record ElectricityData =
  total_kwh :: decimal
  casa2_kwh :: decimal
  total_bill :: decimal
  rate_per_kwh :: "decimal option"

record RecurringBills =
  water :: decimal
  internet :: decimal
  gas :: decimal
  casa2_percentage :: decimal

record OccasionalExpense =
  description :: string
  amount :: decimal
  split_method :: SplitMethod
  casa1_value :: decimal
  casa2_value :: decimal
  percentage :: "decimal option"
  category :: ExpenseCategory
  is_recurring :: bool
  recurrence_months :: int

record Payment =
  casa1_paid :: decimal
  casa2_paid :: decimal

record MonthData =
  year :: int
  month :: string
  electricity :: ElectricityData
  recurring_bills :: RecurringBills
  occasional_expenses :: "OccasionalExpense list"
  payments :: Payment
  is_locked :: bool
  created_at :: int
  modified_at :: int

subsection \<open>String helpers\<close>

definition py_isspace :: "char \<Rightarrow> bool" where
  "py_isspace c \<longleftrightarrow>
     (of_char c :: nat) \<in> set [9, 10, 11, 12, 13, 28, 29, 30, 31, 32, 133, 160]"

text \<open>\<open>not s.strip()\<close>: the string is empty once the white space is stripped.\<close>

definition strip_is_empty :: "string \<Rightarrow> bool" where
  "strip_is_empty s \<longleftrightarrow> list_all py_isspace s"

definition digit_char :: "nat \<Rightarrow> char" where
  "digit_char d = ''0123456789'' ! d"

fun str_nat :: "nat \<Rightarrow> string" where
  "str_nat n = (if n < 10 then [digit_char n] else str_nat (n div 10) @ [digit_char (n mod 10)])"

declare str_nat.simps [simp del]

definition str_int :: "int \<Rightarrow> string" where
  "str_int i = (if i < 0 then CHR ''-'' # str_nat (nat (- i)) else str_nat (nat i))"

fun join :: "string \<Rightarrow> string list \<Rightarrow> string" where
  "join sep [] = []"
| "join sep [x] = x"
| "join sep (x # y # ys) = x @ sep @ join sep (y # ys)"

subsection \<open>Record-level validation\<close>

definition ElectricityData_validate :: "ElectricityData \<Rightarrow> string list" where
  "ElectricityData_validate self =
     (if total_kwh self < 0 then [''Total kWh cannot be negative''] else []) @
     (if casa2_kwh self < 0 then [''Casa 2 kWh cannot be negative''] else []) @
     (if casa2_kwh self > total_kwh self then [''Casa 2 kWh cannot exceed total kWh''] else []) @
     (if total_bill self < 0 then [''Total bill cannot be negative''] else []) @
     (case rate_per_kwh self of
        None \<Rightarrow> []
      | Some r \<Rightarrow> if r < 0 then [''Rate per kWh cannot be negative''] else []) @
     (if total_kwh self > 10000 then [''Total kWh seems unrealistically high''] else []) @
     (if total_bill self > 50000 then [''Total bill seems unrealistically high''] else [])"

definition RecurringBills_validate :: "RecurringBills \<Rightarrow> string list" where
  "RecurringBills_validate self =
     (if water self < 0 then [''Water bill cannot be negative''] else []) @
     (if internet self < 0 then [''Internet bill cannot be negative''] else []) @
     (if gas self < 0 then [''Gas bill cannot be negative''] else []) @
     (if \<not> (0 \<le> casa2_percentage self \<and> casa2_percentage self \<le> 100)
      then [''Casa 2 percentage must be between 0 and 100''] else []) @
     (if water self > 10000 then [''Water bill seems unrealistically high''] else []) @
     (if internet self > 5000 then [''Internet bill seems unrealistically high''] else []) @
     (if gas self > 10000 then [''Gas bill seems unrealistically high''] else [])"

definition OccasionalExpense_validate :: "OccasionalExpense \<Rightarrow> string list" where
  "OccasionalExpense_validate self =
     (if strip_is_empty (description self) then [''Description is required''] else []) @
     (if amount self \<le> 0 then [''Amount must be greater than zero''] else []) @
     (if split_method self = FIXED
      then (let total_fixed = dec_add (casa1_value self) (casa2_value self)
            in if dec_abs (dec_sub total_fixed (amount self)) > 1 / 100
               then [''Sum of fixed values must equal total amount''] else [])
      else []) @
     (case percentage self of
        None \<Rightarrow> []
      | Some p \<Rightarrow> if \<not> (0 \<le> p \<and> p \<le> 100)
                  then [''Percentage must be between 0 and 100''] else []) @
     (if recurrence_months self < 1 then [''Recurrence months must be at least 1''] else []) @
     (if amount self > 100000 then [''Amount seems unrealistically high''] else [])"

definition total_paid :: "Payment \<Rightarrow> decimal" where
  "total_paid self = dec_add (casa1_paid self) (casa2_paid self)"

definition Payment_validate :: "Payment \<Rightarrow> string list" where
  "Payment_validate self =
     (if casa1_paid self < 0 then [''Casa 1 payment cannot be negative''] else []) @
     (if casa2_paid self < 0 then [''Casa 2 payment cannot be negative''] else []) @
     (if total_paid self = 0 then [''At least one payment must be greater than zero''] else []) @
     (if casa1_paid self > 100000 then [''Casa 1 payment seems unrealistically high''] else []) @
     (if casa2_paid self > 100000 then [''Casa 2 payment seems unrealistically high''] else [])"

text \<open>The loop over \<open>enumerate(self.occasional_expenses)\<close>; \<open>i\<close> is the index.\<close>

fun expenses_validate :: "nat \<Rightarrow> OccasionalExpense list \<Rightarrow> string list" where
  "expenses_validate i [] = []"
| "expenses_validate i (expense # rest) =
     map (\<lambda>error. ''Expense '' @ str_nat (i + 1) @ '': '' @ error)
         (OccasionalExpense_validate expense)
     @ expenses_validate (i + 1) rest"

definition MonthData_validate :: "MonthData \<Rightarrow> string list" where
  "MonthData_validate self =
     (if \<not> (2000 \<le> year self \<and> year self \<le> 2100)
      then [''Year must be between 2000 and 2100''] else []) @
     (if month self = [] then [''Month name is required''] else []) @
     ElectricityData_validate (electricity self) @
     RecurringBills_validate (recurring_bills self) @
     Payment_validate (payments self) @
     expenses_validate 0 (occasional_expenses self) @
     (if is_locked self \<and> modified_at self > created_at self
      then [''Cannot modify locked month data''] else [])"

subsection \<open>OccasionalExpense.calculate_split\<close>


section \<open>Calculation engine (core/calculator.py)\<close>

text \<open>
  A result dictionary with \<open>Decimal\<close> values is a map from its keys. The two \<open>float\<close>
  entries of the electricity dictionary (\<open>casa1_percentage\<close>, \<open>casa2_percentage\<close>) are
  display values and are left out. The entries of \<open>result.occasional\<close> and of the
  breakdown mix strings and amounts and become records.
\<close>

type_synonym amounts = "string \<rightharpoonup> decimal"

definition dict_get :: "amounts \<Rightarrow> string \<Rightarrow> decimal \<Rightarrow> decimal" where
  "dict_get d k dflt = (case d k of Some v \<Rightarrow> v | None \<Rightarrow> dflt)"

definition dict_item :: "amounts \<Rightarrow> string \<Rightarrow> error + decimal" where
  "dict_item d k = (case d k of Some v \<Rightarrow> Inr v | None \<Rightarrow> Inl (KeyError k))"

record OccasionalResult =
  occ_description :: string
  occ_total :: decimal
  occ_casa1 :: decimal
  occ_casa2 :: decimal
  occ_method :: SplitMethod
  occ_category :: ExpenseCategory

record BreakdownRow =
  row_type :: string
  row_description :: string
  row_casa1 :: decimal
  row_casa2 :: decimal
  row_total :: decimal

text \<open>
  \<open>CalculationResult\<close> is a dataclass: its constructor takes its declared fields as
  keywords and no other. The seven amounts (\<open>total_expenses\<close>, \<open>casa1_should_pay\<close>,
  \<open>casa2_should_pay\<close>, \<open>month_balance\<close>, \<open>previous_balance\<close>, \<open>final_house1\<close>,
  \<open>final_house2\<close>) are properties with a getter only, read from the \<open>totals\<close> and
  \<open>balances\<close> dictionaries; assigning to one of them raises \<open>AttributeError\<close>. An
  assignment to any other name would store an instance attribute (\<open>attrs\<close>). The
  fields \<open>electricity\<close>, \<open>recurring\<close> and \<open>occasional\<close> carry the prefix \<open>res_\<close>, since
  \<open>MonthData\<close> has fields of these names; the identifier, the metadata and the time of
  the calculation are left out.
\<close>

record CalculationResult =
  res_electricity :: amounts
  res_recurring :: amounts
  res_occasional :: "OccasionalResult list"
  totals :: amounts
  balances :: amounts
  breakdown :: "BreakdownRow list"
  attrs :: amounts

definition CalculationResult_fields :: "string list" where
  "CalculationResult_fields =
     [''id'', ''month_data_id'', ''electricity'', ''recurring'', ''occasional'', ''totals'',
      ''balances'', ''breakdown'', ''metadata'', ''calculated_at'']"

definition CalculationResult_properties :: "string list" where
  "CalculationResult_properties =
     [''total_expenses'', ''casa1_should_pay'', ''casa2_should_pay'', ''month_balance'',
      ''previous_balance'', ''final_house1'', ''final_house2'']"

text \<open>
  The constructor called with \<open>Decimal\<close> keywords: a keyword that is not a field raises
  \<open>TypeError\<close>. No call of the source passes a field by keyword, so the accepted case
  is the object with every field at its default.
\<close>

definition CalculationResult_init :: "(string \<times> decimal) list \<Rightarrow> error + CalculationResult" where
  "CalculationResult_init kwargs =
     (case filter (\<lambda>(k, v). k \<notin> set CalculationResult_fields) kwargs of
        (k, v) # _ \<Rightarrow> Inl (TypeError k)
      | [] \<Rightarrow> Inr \<lparr> res_electricity = Map.empty, res_recurring = Map.empty,
                    res_occasional = [], totals = Map.empty, balances = Map.empty,
                    breakdown = [], attrs = Map.empty \<rparr>)"

definition set_attr :: "string \<Rightarrow> decimal \<Rightarrow> CalculationResult \<Rightarrow> error + CalculationResult" where
  "set_attr name v self =
     (if name \<in> set CalculationResult_properties then Inl (AttributeError name)
      else Inr (self\<lparr>attrs := (attrs self)(name \<mapsto> v)\<rparr>))"

definition total_expenses :: "CalculationResult \<Rightarrow> decimal" where
  "total_expenses self = dict_get (totals self) ''total_expenses'' 0"

definition casa1_should_pay :: "CalculationResult \<Rightarrow> decimal" where
  "casa1_should_pay self = dict_get (totals self) ''casa1_should_pay'' 0"

definition casa2_should_pay :: "CalculationResult \<Rightarrow> decimal" where
  "casa2_should_pay self = dict_get (totals self) ''casa2_should_pay'' 0"

definition month_balance :: "CalculationResult \<Rightarrow> decimal" where
  "month_balance self = dict_get (balances self) ''month_balance'' 0"

definition previous_balance :: "CalculationResult \<Rightarrow> decimal" where
  "previous_balance self = dict_get (balances self) ''previous_balance'' 0"

subsection \<open>Electricity\<close>

definition calculate_electricity :: "nat \<Rightarrow> ElectricityData \<Rightarrow> error + amounts" where
  "calculate_electricity precision electricity_data =
     (if total_kwh electricity_data = 0
      then Inr [''casa1'' \<mapsto> 0, ''casa2'' \<mapsto> 0, ''total'' \<mapsto> 0]
      else
        let total_k = total_kwh electricity_data;
            casa2 = casa2_kwh electricity_data;
            casa1_kwh = dec_sub total_k casa2;
            bill = total_bill electricity_data;
            casa1_share = dec_div casa1_kwh total_k;
            casa2_share = dec_div casa2 total_k
        in case quantize precision (dec_mul bill casa1_share) of
             Inl e \<Rightarrow> Inl e
           | Inr casa1_amount \<Rightarrow>
               Inr [''casa1'' \<mapsto> casa1_amount,
                    ''casa2'' \<mapsto> dec_sub bill casa1_amount,
                    ''total'' \<mapsto> bill,
                    ''casa1_kwh'' \<mapsto> casa1_kwh,
                    ''casa2_kwh'' \<mapsto> casa2])"

subsection \<open>Recurring bills\<close>

text \<open>One bill of the dictionary: the three keys are stored when the amount is positive.\<close>

definition split_bill ::
  "nat \<Rightarrow> string \<Rightarrow> decimal \<Rightarrow> decimal \<Rightarrow> amounts \<Rightarrow> error + amounts" where
  "split_bill precision name bill casa2_share results =
     (if bill > 0
      then case quantize precision (dec_mul bill casa2_share) of
             Inl e \<Rightarrow> Inl e
           | Inr bill_casa2 \<Rightarrow>
               Inr (results(name @ ''_casa1'' \<mapsto> dec_sub bill bill_casa2,
                            name @ ''_casa2'' \<mapsto> bill_casa2,
                            name @ ''_total'' \<mapsto> bill))
      else Inr results)"

text \<open>
  The source writes the water block and the internet block out one after the other;
  there is no block for gas.
\<close>

definition calculate_recurring_bills :: "nat \<Rightarrow> RecurringBills \<Rightarrow> error + amounts" where
  "calculate_recurring_bills precision bills =
     (let casa2_share = dec_div (casa2_percentage bills) 100;
          casa1_share = dec_sub 1 casa2_share
      in case split_bill precision ''water'' (water bills) casa2_share Map.empty of
           Inl e \<Rightarrow> Inl e
         | Inr results \<Rightarrow> split_bill precision ''internet'' (internet bills) casa2_share results)"

subsection \<open>Occasional expenses\<close>

text \<open>
  \<open>expense.split_method == "fixed"\<close> compares a member of the plain \<open>Enum\<close>
  \<open>SplitMethod\<close> with a \<open>str\<close>; such a comparison is false for every member.
\<close>

definition SplitMethod_eq_str :: "SplitMethod \<Rightarrow> string \<Rightarrow> bool" where
  "SplitMethod_eq_str m s = False"

fun calculate_occasional_expenses ::
  "nat \<Rightarrow> OccasionalExpense list \<Rightarrow> decimal \<Rightarrow> error + OccasionalResult list" where
  "calculate_occasional_expenses precision [] default_casa2_percentage = Inr []"
| "calculate_occasional_expenses precision (expense # rest) default_casa2_percentage =
     (case (if SplitMethod_eq_str (split_method expense) ''fixed''
            then Inr (casa1_value expense, casa2_value expense)
            else let total_amount = amount expense;
                     casa2_share = dec_div default_casa2_percentage 100
                 in case quantize precision (dec_mul total_amount casa2_share) of
                      Inl e \<Rightarrow> Inl e
                    | Inr casa2 \<Rightarrow> Inr (dec_sub total_amount casa2, casa2)) of
        Inl e \<Rightarrow> Inl e
      | Inr (casa1, casa2) \<Rightarrow>
          (case calculate_occasional_expenses precision rest default_casa2_percentage of
             Inl e \<Rightarrow> Inl e
           | Inr results \<Rightarrow>
               Inr (\<lparr> occ_description = description expense, occ_total = amount expense,
                      occ_casa1 = casa1, occ_casa2 = casa2,
                      occ_method = split_method expense,
                      occ_category = category expense \<rparr> # results)))"

subsection \<open>Totals and balances\<close>

text \<open>
  \<open>_calculate_totals\<close> and \<open>_calculate_balances\<close> first compute their amounts and then
  assign them to the result. The amounts are \<open>totals_amounts\<close> and \<open>balance_amounts\<close>;
  the assignments go through \<open>set_attr\<close>.
\<close>

definition totals_amounts :: "CalculationResult \<Rightarrow> decimal \<times> decimal \<times> decimal" where
  "totals_amounts result =
     (let casa1_total = dict_get (res_electricity result) ''casa1'' 0;
          casa2_total = dict_get (res_electricity result) ''casa2'' 0;
          casa1_total = dec_add casa1_total (dict_get (res_recurring result) ''water_casa1'' 0);
          casa1_total = dec_add casa1_total (dict_get (res_recurring result) ''internet_casa1'' 0);
          casa2_total = dec_add casa2_total (dict_get (res_recurring result) ''water_casa2'' 0);
          casa2_total = dec_add casa2_total (dict_get (res_recurring result) ''internet_casa2'' 0);
          casa1_total = foldl (\<lambda>acc expense. dec_add acc (occ_casa1 expense)) casa1_total
                          (res_occasional result);
          casa2_total = foldl (\<lambda>acc expense. dec_add acc (occ_casa2 expense)) casa2_total
                          (res_occasional result)
      in (casa1_total, casa2_total, dec_add casa1_total casa2_total))"

definition calculate_totals :: "CalculationResult \<Rightarrow> MonthData \<Rightarrow> error + CalculationResult" where
  "calculate_totals result month_data =
     (case totals_amounts result of
        (casa1_total, casa2_total, total_sum) \<Rightarrow>
          (case set_attr ''casa1_should_pay'' casa1_total result of
             Inl e \<Rightarrow> Inl e
           | Inr result \<Rightarrow>
               (case set_attr ''casa2_should_pay'' casa2_total result of
                  Inl e \<Rightarrow> Inl e
                | Inr result \<Rightarrow> set_attr ''total_expenses'' total_sum result)))"

text \<open>The triple is \<open>(month_balance, final_house1, final_house2)\<close>.\<close>

definition balance_amounts :: "CalculationResult \<Rightarrow> Payment \<Rightarrow> decimal \<times> decimal \<times> decimal" where
  "balance_amounts result payment =
     (let casa1_balance = dec_sub (casa1_should_pay result) (casa1_paid payment);
          casa2_balance = dec_sub (casa2_should_pay result) (casa2_paid payment)
      in (dec_sub casa2_balance casa1_balance,
          dec_sub casa1_balance (previous_balance result),
          dec_add casa2_balance (previous_balance result)))"

definition calculate_balances :: "CalculationResult \<Rightarrow> Payment \<Rightarrow> error + CalculationResult" where
  "calculate_balances result payment =
     (case balance_amounts result payment of
        (balance, final1, final2) \<Rightarrow>
          (case set_attr ''month_balance'' balance result of
             Inl e \<Rightarrow> Inl e
           | Inr result \<Rightarrow>
               (case set_attr ''final_house1'' final1 result of
                  Inl e \<Rightarrow> Inl e
                | Inr result \<Rightarrow> set_attr ''final_house2'' final2 result)))"

subsection \<open>Breakdown\<close>

definition expense_row :: "string \<Rightarrow> amounts \<Rightarrow> string \<Rightarrow> error + BreakdownRow" where
  "expense_row label d prefix =
     (case dict_item d (prefix @ ''casa1'') of
        Inl e \<Rightarrow> Inl e
      | Inr c1 \<Rightarrow>
          (case dict_item d (prefix @ ''casa2'') of
             Inl e \<Rightarrow> Inl e
           | Inr c2 \<Rightarrow>
               (case dict_item d (prefix @ ''total'') of
                  Inl e \<Rightarrow> Inl e
                | Inr t \<Rightarrow>
                    Inr \<lparr> row_type = ''expense'', row_description = label,
                          row_casa1 = c1, row_casa2 = c2, row_total = t \<rparr>)))"

definition generate_breakdown :: "CalculationResult \<Rightarrow> MonthData \<Rightarrow> error + BreakdownRow list" where
  "generate_breakdown result month_data =
     (case (if dict_get (res_electricity result) ''total'' 0 > 0
            then map_sum id (\<lambda>r. [r])
                   (expense_row (''Energia El'' @ [CHR 0xE9] @ ''trica'') (res_electricity result) [])
            else Inr []) of
        Inl e \<Rightarrow> Inl e
      | Inr rows_e \<Rightarrow>
     (case (if res_recurring result ''water_total'' \<noteq> None
            then map_sum id (\<lambda>r. [r])
                   (expense_row (CHR 0xC1 # ''gua'') (res_recurring result) ''water_'')
            else Inr []) of
        Inl e \<Rightarrow> Inl e
      | Inr rows_w \<Rightarrow>
     (case (if res_recurring result ''internet_total'' \<noteq> None
            then map_sum id (\<lambda>r. [r])
                   (expense_row ''Internet'' (res_recurring result) ''internet_'')
            else Inr []) of
        Inl e \<Rightarrow> Inl e
      | Inr rows_i \<Rightarrow>
          Inr (rows_e @ rows_w @ rows_i @
               map (\<lambda>expense. \<lparr> row_type = ''expense'',
                                 row_description = occ_description expense,
                                 row_casa1 = occ_casa1 expense, row_casa2 = occ_casa2 expense,
                                 row_total = occ_total expense \<rparr>) (res_occasional result) @
               [\<lparr> row_type = ''total'',
                   row_description = ''TOTAL OBRIGA'' @ [CHR 0xC7, CHR 0xD5] @ ''ES'',
                   row_casa1 = casa1_should_pay result, row_casa2 = casa2_should_pay result,
                   row_total = total_expenses result \<rparr>,
                \<lparr> row_type = ''payment'', row_description = ''PAGAMENTOS REALIZADOS'',
                   row_casa1 = casa1_paid (payments month_data),
                   row_casa2 = casa2_paid (payments month_data),
                   row_total = dec_add (casa1_paid (payments month_data))
                                       (casa2_paid (payments month_data)) \<rparr>,
                \<lparr> row_type = ''balance'',
                   row_description = ''SALDO DO M'' @ [CHR 0xCA] @ ''S'',
                   row_casa1 = dec_sub (casa1_should_pay result) (casa1_paid (payments month_data)),
                   row_casa2 = dec_sub (casa2_should_pay result) (casa2_paid (payments month_data)),
                   row_total = month_balance result \<rparr>]))))"

subsection \<open>calculate_month\<close>

text \<open>
  The \<open>try\<close> block re-raises every exception after logging it, so an exception of a
  step is the exception of \<open>calculate_month\<close>. The first argument is the precision of
  the calculator (2 unless the caller chooses another); the parameter
  \<open>previous_balance\<close> of the source is \<open>previous_balance_arg\<close> here.
\<close>

definition calculate_month :: "nat \<Rightarrow> MonthData \<Rightarrow> decimal \<Rightarrow> error + CalculationResult" where
  "calculate_month precision month_data previous_balance_arg =
     (let validation_errors = MonthData_validate month_data
      in if validation_errors \<noteq> []
         then Inl (ValueError (''Data validation failed: '' @ join '', '' validation_errors))
         else
     (case CalculationResult_init [(''previous_balance'', previous_balance_arg)] of
        Inl e \<Rightarrow> Inl e
      | Inr result \<Rightarrow>
     (case calculate_electricity precision (electricity month_data) of
        Inl e \<Rightarrow> Inl e
      | Inr el \<Rightarrow>
     (case calculate_recurring_bills precision (recurring_bills month_data) of
        Inl e \<Rightarrow> Inl e
      | Inr recur \<Rightarrow>
     (case calculate_occasional_expenses precision (occasional_expenses month_data)
             (casa2_percentage (recurring_bills month_data)) of
        Inl e \<Rightarrow> Inl e
      | Inr occ \<Rightarrow>
     (case calculate_totals
             (result\<lparr>res_electricity := el, res_recurring := recur, res_occasional := occ\<rparr>)
             month_data of
        Inl e \<Rightarrow> Inl e
      | Inr result \<Rightarrow>
     (case calculate_balances result (payments month_data) of
        Inl e \<Rightarrow> Inl e
      | Inr result \<Rightarrow>
     (case generate_breakdown result month_data of
        Inl e \<Rightarrow> Inl e
      | Inr rows \<Rightarrow> Inr (result\<lparr>breakdown := rows\<rparr>)))))))))"

section \<open>Vocabulary of the properties\<close>

text \<open>
  \<open>round_cents\<close> is rounding to currency precision, half up, as a function of the exact
  number. \<open>money\<close> holds of a currency value: at most two decimal places and an
  absolute value of at most \<open>10^15\<close>, far above every limit of the validation. The remaining functions read one entry of a result that may be
  an error.
\<close>

definition round_cents :: "rat \<Rightarrow> rat" where
  "round_cents x = of_int (round_half_up (x * 100)) / 100"

definition money :: "decimal \<Rightarrow> bool" where
  "money x \<longleftrightarrow> is_cents x \<and> \<bar>x\<bar> \<le> 10 ^ 15"

definition lookup_result :: "error + amounts \<Rightarrow> string \<Rightarrow> decimal option" where
  "lookup_result res k = (case res of Inl e \<Rightarrow> None | Inr d \<Rightarrow> d k)"

definition opt_add :: "decimal option \<Rightarrow> decimal option \<Rightarrow> decimal option" where
  "opt_add a b = (case a of None \<Rightarrow> None
                  | Some x \<Rightarrow> (case b of None \<Rightarrow> None | Some y \<Rightarrow> Some (x + y)))"



section \<open>Validation framework (models/validation.py)\<close>

text \<open>
  A \<open>ValidationError\<close> keeps its field, code, severity and offending value; the message
  and the context are display texts built from the same data and are left out, as is
  the metadata dictionary of a \<open>ValidationResult\<close>.
\<close>

record ValidationError =
  err_field :: string
  err_code :: string
  err_severity :: string
  err_value :: "decimal option"

record ValidationResult =
  is_valid :: bool
  errors :: "ValidationError list"
  warnings :: "ValidationError list"

text \<open>\<open>ValidationResult()\<close>: \<open>__post_init__\<close> sets \<open>is_valid\<close> from the empty error list.\<close>

definition ValidationResult_init :: ValidationResult where
  "ValidationResult_init =
     (let errs = [] in \<lparr> is_valid = (length errs = 0), errors = errs, warnings = [] \<rparr>)"

definition add_error :: "string \<Rightarrow> string \<Rightarrow> decimal option \<Rightarrow> ValidationResult \<Rightarrow> ValidationResult" where
  "add_error fld cd val self =
     self\<lparr> errors := errors self @
              [\<lparr> err_field = fld, err_code = cd, err_severity = ''error'', err_value = val \<rparr>],
           is_valid := False \<rparr>"

definition add_warning :: "string \<Rightarrow> string \<Rightarrow> decimal option \<Rightarrow> ValidationResult \<Rightarrow> ValidationResult" where
  "add_warning fld cd val self =
     self\<lparr> warnings := warnings self @
              [\<lparr> err_field = fld, err_code = cd, err_severity = ''warning'', err_value = val \<rparr>] \<rparr>"

definition merge :: "ValidationResult \<Rightarrow> ValidationResult \<Rightarrow> ValidationResult" where
  "merge self other =
     (let errs = errors self @ errors other
      in \<lparr> is_valid = (length errs = 0), errors = errs,
            warnings = warnings self @ warnings other \<rparr>)"

text \<open>\<open>result.errors.extend(...)\<close>, as the validators write it: \<open>is_valid\<close> is not touched.\<close>

definition errors_extend :: "ValidationError list \<Rightarrow> ValidationResult \<Rightarrow> ValidationResult" where
  "errors_extend errs self = self\<lparr> errors := errors self @ errs \<rparr>"

definition validate_decimal_range ::
  "decimal \<Rightarrow> string \<Rightarrow> decimal option \<Rightarrow> decimal option \<Rightarrow> bool \<Rightarrow> bool \<Rightarrow> ValidationError list" where
  "validate_decimal_range val fld min_value max_value allow_zero allow_negative =
     (if \<not> allow_negative \<and> val < 0
      then [\<lparr> err_field = fld, err_code = ''NEGATIVE_VALUE'', err_severity = ''error'',
               err_value = Some val \<rparr>] else []) @
     (if \<not> allow_zero \<and> val = 0
      then [\<lparr> err_field = fld, err_code = ''ZERO_VALUE'', err_severity = ''error'',
               err_value = Some val \<rparr>] else []) @
     (case min_value of
        None \<Rightarrow> []
      | Some lo \<Rightarrow>
          if val < lo
          then [\<lparr> err_field = fld, err_code = ''VALUE_TOO_LOW'', err_severity = ''error'',
                   err_value = Some val \<rparr>] else []) @
     (case max_value of
        None \<Rightarrow> []
      | Some hi \<Rightarrow>
          if val > hi
          then [\<lparr> err_field = fld, err_code = ''VALUE_TOO_HIGH'', err_severity = ''error'',
                   err_value = Some val \<rparr>] else [])"

text \<open>
  A custom rule is a callable: it raises, or it returns an error or \<open>None\<close>. A rule that
  raises is logged and skipped.
\<close>

datatype rule_outcome = RuleRaises | RuleReturns "ValidationError option"

fun apply_custom_rules ::
  "('a \<Rightarrow> rule_outcome) list \<Rightarrow> 'a \<Rightarrow> ValidationResult \<Rightarrow> ValidationResult" where
  "apply_custom_rules [] data result = result"
| "apply_custom_rules (rule # rules) data result =
     apply_custom_rules rules data
       (case rule data of
          RuleRaises \<Rightarrow> result
        | RuleReturns None \<Rightarrow> result
        | RuleReturns (Some error) \<Rightarrow> result\<lparr> errors := errors result @ [error] \<rparr>)"

text \<open>The argument of \<open>validate\<close> is any object; \<open>isinstance\<close> tells the two cases apart.\<close>

datatype electricity_argument = AnElectricityData ElectricityData | AnotherObject

definition ElectricityValidator_validate ::
  "bool \<Rightarrow> (ElectricityData \<Rightarrow> rule_outcome) list \<Rightarrow> electricity_argument \<Rightarrow> ValidationResult" where
  "ElectricityValidator_validate strict_mode custom_rules arg =
     (let result = ValidationResult_init
      in case arg of
           AnotherObject \<Rightarrow> add_error ''data'' ''INVALID_TYPE'' None result
         | AnElectricityData data \<Rightarrow>
     (let result = errors_extend
                     (validate_decimal_range (total_kwh data) ''total_kwh''
                        (Some 0) (Some 10000) True False) result;
          result = errors_extend
                     (validate_decimal_range (casa2_kwh data) ''casa2_kwh''
                        (Some 0) (Some (total_kwh data)) True False) result;
          result = errors_extend
                     (validate_decimal_range (total_bill data) ''total_bill''
                        (Some 0) (Some 50000) True False) result;
          result = (case rate_per_kwh data of
                      None \<Rightarrow> result
                    | Some rate \<Rightarrow>
                        errors_extend
                          (validate_decimal_range rate ''rate_per_kwh''
                             (Some 0) (Some 10) True False) result);
          result = (if total_kwh data > 0 \<and> total_bill data > 0
                    then let calculated_rate = dec_div (total_bill data) (total_kwh data)
                         in if calculated_rate > 5
                            then add_warning ''rate_per_kwh'' ''HIGH_RATE''
                                   (Some calculated_rate) result
                            else result
                    else result);
          result = (if casa2_kwh data > total_kwh data
                    then add_error ''casa2_kwh'' ''INVALID_PROPORTION'' None result
                    else result);
          result = (if strict_mode
                    then let result =
                               (if total_kwh data = 0 \<and> total_bill data > 0
                                then add_error ''total_kwh'' ''INCONSISTENT_DATA'' None result
                                else result)
                         in if total_bill data = 0 \<and> total_kwh data > 0
                            then add_warning ''total_bill'' ''MISSING_BILL'' None result
                            else result
                    else result)
      in apply_custom_rules custom_rules data result))"

section \<open>Projection (ExpenseCalculator.project_next_month)\<close>

text \<open>
  A historical month is a stored month dictionary, of which the projection reads the
  \<open>results\<close> dictionary only: \<open>None\<close> when the month has no \<open>results\<close> key. The list is
  in calendar order, the most recent month last, as the slices \<open>[-3:]\<close> (the last three
  months) and \<open>[-6:]\<close> read it. The confidence and the volatility of the returned
  dictionary are \<open>float\<close> values and are not part of the model.
\<close>

record Projection =
  estimated_total :: decimal
  estimated_casa1 :: decimal
  estimated_casa2 :: decimal
  estimated_casa1_with_balance :: "decimal option"
  estimated_casa2_with_balance :: "decimal option"
  basis :: string

definition weights :: "decimal list" where
  "weights = [5 / 10, 3 / 10, 2 / 10]"

definition results_get :: "amounts option \<Rightarrow> string \<Rightarrow> decimal" where
  "results_get month_data k =
     (case month_data of None \<Rightarrow> 0 | Some results \<Rightarrow> dict_get results k 0)"

text \<open>
  The loop over \<open>enumerate(historical_data[-3:])\<close>; the accumulator is
  \<open>(weighted_total, weighted_casa1, weighted_casa2, total_weight)\<close>.
\<close>

fun weighted_loop ::
  "nat \<Rightarrow> amounts option list \<Rightarrow> decimal \<times> decimal \<times> decimal \<times> decimal
     \<Rightarrow> decimal \<times> decimal \<times> decimal \<times> decimal" where
  "weighted_loop i [] acc = acc"
| "weighted_loop i (month_data # rest) (weighted_total, weighted_casa1, weighted_casa2, total_weight) =
     (let weight = weights ! (min i 2)
      in weighted_loop (i + 1) rest
           (dec_add weighted_total (dec_mul (results_get month_data ''total_expenses'') weight),
            dec_add weighted_casa1 (dec_mul (results_get month_data ''casa1_should_pay'') weight),
            dec_add weighted_casa2 (dec_mul (results_get month_data ''casa2_should_pay'') weight),
            dec_add total_weight weight))"

definition last_n :: "nat \<Rightarrow> 'a list \<Rightarrow> 'a list" where
  "last_n n xs = drop (length xs - n) xs"

definition project_next_month :: "amounts option list \<Rightarrow> decimal \<Rightarrow> Projection" where
  "project_next_month historical_data current_balance =
     (if historical_data = []
      then \<lparr> estimated_total = 0, estimated_casa1 = 0, estimated_casa2 = 0,
             estimated_casa1_with_balance = None, estimated_casa2_with_balance = None,
             basis = ''no_data'' \<rparr>
      else
        case weighted_loop 0 (last_n 3 historical_data) (0, 0, 0, 0) of
          (weighted_total, weighted_casa1, weighted_casa2, total_weight) \<Rightarrow>
            (let (est_total, est_casa1, est_casa2) =
                   (if total_weight > 0
                    then (dec_div weighted_total total_weight,
                          dec_div weighted_casa1 total_weight,
                          dec_div weighted_casa2 total_weight)
                    else (0, 0, 0))
             in \<lparr> estimated_total = est_total, estimated_casa1 = est_casa1,
                   estimated_casa2 = est_casa2,
                   estimated_casa1_with_balance = Some (dec_sub est_casa1 current_balance),
                   estimated_casa2_with_balance = Some (dec_add est_casa2 current_balance),
                   basis = ''last_'' @ str_nat (length (last_n 3 historical_data)) @ ''months'' \<rparr>))"

text \<open>
  The projection in the words of the specification: the weighted average of the last
  up to three totals, weight 0.5 on the most recent month, 0.3 on the one before and
  0.2 on the oldest, divided by the sum of the weights used.
\<close>

fun weighted_sum :: "decimal list \<Rightarrow> decimal list \<Rightarrow> decimal \<times> decimal" where
  "weighted_sum (w # ws) (x # xs) =
     (case weighted_sum ws xs of (s, t) \<Rightarrow> (w * x + s, w + t))"
| "weighted_sum ws xs = (0, 0)"

definition spec_projection_total :: "decimal list \<Rightarrow> decimal" where
  "spec_projection_total month_totals =
     (case weighted_sum [5 / 10, 3 / 10, 2 / 10] (rev (last_n 3 month_totals)) of
        (s, t) \<Rightarrow> if t = 0 then 0 else s / t)"

section \<open>Storage layer (DataManager.repair_data)\<close>

text \<open>
  The cache is a dictionary from years to dictionaries from month names to stored
  months, and a stored month is a JSON value. A Python dictionary keeps its keys in
  insertion order, so it is an association list (with distinct keys); \<open>k in d\<close> is
  \<open>has_key\<close>, and storing under a key that is absent appends the entry. The year keys
  are integers, as \<open>_validate_and_convert_data\<close> builds them, so the test
  \<open>isinstance(year, int)\<close> always holds. Every \<open>datetime.now().isoformat()\<close> reads the
  clock; the model takes the text that is read for a given year, month and key as the
  parameter \<open>now\<close>.
\<close>

datatype json =
    JNull
  | JBool bool
  | JNum rat
  | JStr string
  | JList "json list"
  | JDict "(string \<times> json) list"

type_synonym pydict = "(string \<times> json) list"

type_synonym store = "(int \<times> (string \<times> json) list) list"

record DataManager =
  cache :: store
  dirty :: bool

definition has_key :: "string \<Rightarrow> (string \<times> 'v) list \<Rightarrow> bool" where
  "has_key k d \<longleftrightarrow> k \<in> set (map fst d)"

definition months_order :: "string list" where
  "months_order =
     [''Janeiro'', ''Fevereiro'', ''Mar'' @ [CHR 0xE7] @ ''o'', ''Abril'', ''Maio'', ''Junho'',
      ''Julho'', ''Agosto'', ''Setembro'', ''Outubro'', ''Novembro'', ''Dezembro'']"

definition default_electricity :: json where
  "default_electricity =
     JDict [(''total_kwh'', JNum 0), (''casa2_kwh'', JNum 0), (''total_bill'', JNum 0)]"

definition default_recurring_bills :: json where
  "default_recurring_bills =
     JDict [(''water'', JNum 0), (''internet'', JNum 0), (''casa2_percentage'', JNum 67)]"

definition default_payments :: json where
  "default_payments =
     JDict [(''casa1_paid'', JNum 0), (''casa2_paid'', JNum 0),
            (''payment_method'', JStr []), (''notes'', JStr [])]"

text \<open>
  One \<open>if key not in month_data\<close> block: the entry is appended, the message (if the
  block has one) is recorded and \<open>repairs_made\<close> is set.
\<close>

definition fill_missing ::
  "string \<Rightarrow> json \<Rightarrow> string list \<Rightarrow> pydict \<times> string list \<times> bool \<Rightarrow> pydict \<times> string list \<times> bool" where
  "fill_missing k v msg state =
     (case state of
        (month_data, messages, repairs_made) \<Rightarrow>
          if \<not> has_key k month_data
          then (month_data @ [(k, v)], messages @ msg, True)
          else (month_data, messages, repairs_made))"

definition repair_month_data ::
  "(int \<Rightarrow> string \<Rightarrow> string \<Rightarrow> string) \<Rightarrow> int \<Rightarrow> string \<Rightarrow> pydict
     \<Rightarrow> pydict \<times> string list \<times> bool" where
  "repair_month_data now y month_name month_data =
     (let place = str_int y @ ''/'' @ month_name
      in fill_missing ''modified_at'' (JStr (now y month_name ''modified_at'')) []
        (fill_missing ''created_at'' (JStr (now y month_name ''created_at'')) []
        (fill_missing ''occasional_expenses'' (JList [])
           [''Added missing occasional expenses: '' @ place]
        (fill_missing ''payments'' default_payments
           [''Added missing payments data: '' @ place]
        (fill_missing ''recurring_bills'' default_recurring_bills
           [''Added missing recurring bills data: '' @ place]
        (fill_missing ''electricity'' default_electricity
           [''Added missing electricity data: '' @ place]
           (month_data, [], False)))))))"

text \<open>
  The loop over the months of one year. The result is the months with the valid ones
  repaired, the names collected in \<open>invalid_months\<close>, the messages and \<open>repairs_made\<close>.
\<close>

fun repair_months ::
  "(int \<Rightarrow> string \<Rightarrow> string \<Rightarrow> string) \<Rightarrow> int \<Rightarrow> (string \<times> json) list
     \<Rightarrow> (string \<times> json) list \<times> string list \<times> string list \<times> bool" where
  "repair_months now y [] = ([], [], [], False)"
| "repair_months now y ((month_name, month_data) # rest) =
     (case repair_months now y rest of
        (rest', invalid_months, messages, repairs_made) \<Rightarrow>
          if month_name \<notin> set months_order
          then ((month_name, month_data) # rest', month_name # invalid_months,
                messages, repairs_made)
          else
            (case month_data of
               JDict d \<Rightarrow>
                 (case repair_month_data now y month_name d of
                    (d', msgs, made) \<Rightarrow>
                      ((month_name, JDict d') # rest', invalid_months,
                       msgs @ messages, made \<or> repairs_made))
             | _ \<Rightarrow>
                 ((month_name, month_data) # rest', month_name # invalid_months,
                  messages, repairs_made)))"

text \<open>After the loop the invalid months are deleted, each with its message.\<close>

definition repair_year ::
  "(int \<Rightarrow> string \<Rightarrow> string \<Rightarrow> string) \<Rightarrow> int \<Rightarrow> (string \<times> json) list
     \<Rightarrow> (string \<times> json) list \<times> string list \<times> bool" where
  "repair_year now y year_data =
     (case repair_months now y year_data of
        (months, invalid_months, messages, repairs_made) \<Rightarrow>
          (filter (\<lambda>(month_name, month_data). month_name \<notin> set invalid_months) months,
           messages @ map (\<lambda>month_name. ''Removed invalid month: '' @ str_int y @ ''/'' @ month_name)
                        invalid_months,
           repairs_made \<or> invalid_months \<noteq> []))"

fun repair_years ::
  "(int \<Rightarrow> string \<Rightarrow> string \<Rightarrow> string) \<Rightarrow> store \<Rightarrow> store \<times> string list \<times> bool" where
  "repair_years now [] = ([], [], False)"
| "repair_years now ((y, year_data) # rest) =
     (case repair_year now y year_data of
        (year_data', msgs, made) \<Rightarrow>
          (case repair_years now rest of
             (rest', messages, repairs_made) \<Rightarrow>
               ((y, year_data') # rest', msgs @ messages, made \<or> repairs_made)))"

text \<open>
  \<open>repair_data\<close> returns the pair \<open>(True, repair_messages)\<close>; the model returns the new
  state of the manager with it. Nothing in the \<open>try\<close> block raises in the model, so the
  \<open>except\<close> branch is not written.
\<close>

definition repair_data ::
  "(int \<Rightarrow> string \<Rightarrow> string \<Rightarrow> string) \<Rightarrow> DataManager \<Rightarrow> DataManager \<times> bool \<times> string list" where
  "repair_data now self =
     (let invalid_years = filter (\<lambda>y. y < 2000 \<or> y > 2100) (map fst (cache self));
          kept = filter (\<lambda>(y, year_data). y \<notin> set invalid_years) (cache self);
          messages = map (\<lambda>y. ''Removed invalid year: '' @ str_int y) invalid_years
      in case repair_years now kept of
           (cache', msgs, made) \<Rightarrow>
             (let repairs_made = (invalid_years \<noteq> [] \<or> made)
              in (\<lparr> cache = cache', dirty = (if repairs_made then True else dirty self) \<rparr>,
                  True,
                  messages @ msgs @
                  (if repairs_made then [''Data repairs completed successfully''] else []))))"

text \<open>
  The repair in the words of the specification: the entries that are appended to a
  stored month are the defaults of the required sub-records, and the two time stamps,
  that the month lacks.
\<close>

definition required_defaults :: pydict where
  "required_defaults =
     [(''electricity'', default_electricity),
      (''recurring_bills'', default_recurring_bills),
      (''payments'', default_payments),
      (''occasional_expenses'', JList [])]"

definition missing_entries ::
  "(int \<Rightarrow> string \<Rightarrow> string \<Rightarrow> string) \<Rightarrow> int \<Rightarrow> string \<Rightarrow> pydict \<Rightarrow> pydict" where
  "missing_entries now y month_name d =
     filter (\<lambda>(k, v). \<not> has_key k d)
       (required_defaults @
        [(''created_at'', JStr (now y month_name ''created_at'')),
         (''modified_at'', JStr (now y month_name ''modified_at''))])"

definition is_dict :: "json \<Rightarrow> bool" where
  "is_dict v = (case v of JDict d \<Rightarrow> True | _ \<Rightarrow> False)"

definition filled :: "(int \<Rightarrow> string \<Rightarrow> string \<Rightarrow> string) \<Rightarrow> int \<Rightarrow> string \<Rightarrow> json \<Rightarrow> json" where
  "filled now y month_name v =
     (case v of JDict d \<Rightarrow> JDict (d @ missing_entries now y month_name d) | _ \<Rightarrow> v)"

definition all_months_are_dicts :: "store \<Rightarrow> bool" where
  "all_months_are_dicts s \<longleftrightarrow>
     list_all (\<lambda>(y, year_data). list_all (\<lambda>(month_name, month_data). is_dict month_data) year_data) s"

text \<open>
  A store that needs no repair: every year lies in \<open>[2000, 2100]\<close>, every month has a
  calendar name and is a dictionary with the four sub-records and the two time stamps.
\<close>

definition complete :: "pydict \<Rightarrow> bool" where
  "complete d \<longleftrightarrow> has_key ''electricity'' d \<and> has_key ''recurring_bills'' d
     \<and> has_key ''payments'' d \<and> has_key ''occasional_expenses'' d
     \<and> has_key ''created_at'' d \<and> has_key ''modified_at'' d"

definition clean_month :: "string \<times> json \<Rightarrow> bool" where
  "clean_month entry \<longleftrightarrow>
     fst entry \<in> set months_order
     \<and> (case snd entry of JDict d \<Rightarrow> complete d | _ \<Rightarrow> False)"

definition clean_store :: "store \<Rightarrow> bool" where
  "clean_store s \<longleftrightarrow>
     list_all (\<lambda>(y, year_data). 2000 \<le> y \<and> y \<le> 2100 \<and> list_all clean_month year_data) s"

text \<open>
  What the specification says of the repaired store: the years in \<open>[2000, 2100]\<close>, in
  each the months with a calendar name, each month filled.
\<close>

definition spec_repair :: "(int \<Rightarrow> string \<Rightarrow> string \<Rightarrow> string) \<Rightarrow> store \<Rightarrow> store" where
  "spec_repair now s =
     map (\<lambda>(y, year_data).
            (y, map (\<lambda>(month_name, month_data). (month_name, filled now y month_name month_data))
                  (filter (\<lambda>(month_name, month_data). month_name \<in> set months_order) year_data)))
         (filter (\<lambda>(y, year_data). 2000 \<le> y \<and> y \<le> 2100) s)"

text \<open>A clock that always reads the same instant, for examples.\<close>

definition fixed_clock :: "int \<Rightarrow> string \<Rightarrow> string \<Rightarrow> string" where
  "fixed_clock y month_name k = ''2024-01-01T00:00:00''"

section \<open>Facts about the decimal rounding\<close>

lemma ndigits_upper: "n < 10 ^ ndigits n"
proof (induction n rule: ndigits.induct)
  case (1 n)
  show ?case
  proof (cases "n < 10")
    case True
    then show ?thesis by (simp add: ndigits.simps [of n])
  next
    case False
    with 1 have "n div 10 < 10 ^ ndigits (n div 10)" by simp
    then have "n < 10 * 10 ^ ndigits (n div 10)" by linarith
    with False show ?thesis by (simp add: ndigits.simps [of n])
  qed
qed

lemma ndigits_lower: "0 < n \<Longrightarrow> 10 ^ (ndigits n - 1) \<le> n"
proof (induction n rule: ndigits.induct)
  case (1 n)
  show ?case
  proof (cases "n < 10")
    case True
    with 1 show ?thesis by (simp add: ndigits.simps [of n])
  next
    case False
    then have pos: "0 < n div 10" by simp
    with 1 False have "10 ^ (ndigits (n div 10) - 1) \<le> n div 10" by simp
    then have "10 * 10 ^ (ndigits (n div 10) - 1) \<le> n" by linarith
    moreover have "0 < ndigits (n div 10)" by (simp add: ndigits.simps [of "n div 10"])
    ultimately show ?thesis
      using False by (simp add: ndigits.simps [of n] power_eq_if)
  qed
qed

lemma adjusted_lower:
  assumes "x \<noteq> 0"
  shows "10 powi adjusted x \<le> \<bar>x\<bar>"
proof (cases "1 \<le> \<bar>x\<bar>")
  case True
  define n where "n = nat \<lfloor>\<bar>x\<bar>\<rfloor>"
  have npos: "0 < n" using True by (simp add: n_def)
  have "(10::nat) ^ (ndigits n - 1) \<le> n" using ndigits_lower [OF npos] .
  then have "(of_nat (10 ^ (ndigits n - 1)) :: rat) \<le> of_nat n"
    using of_nat_le_iff by blast
  then have "(10::rat) ^ (ndigits n - 1) \<le> of_nat n" by simp
  moreover have "(of_nat n :: rat) \<le> \<bar>x\<bar>"
    using True by (simp add: n_def)
  ultimately have "(10::rat) ^ (ndigits n - 1) \<le> \<bar>x\<bar>" by (rule order_trans)
  moreover have "0 < ndigits n" by (simp add: ndigits.simps [of n])
  then have "adjusted x = int (ndigits n - 1)"
    using True by (simp add: adjusted_def n_def)
  ultimately show ?thesis by simp
next
  case False
  define y where "y = 1 / \<bar>x\<bar>"
  define m where "m = nat (\<lceil>y\<rceil> - 1)"
  have xpos: "0 < \<bar>x\<bar>" using assms by simp
  have ypos: "0 < y" using xpos by (simp add: y_def)
  have "int m < 10 ^ ndigits m" using ndigits_upper [of m]
    by (metis of_nat_less_iff of_nat_numeral of_nat_power)
  moreover have "\<lceil>y\<rceil> - 1 \<le> int m" by (simp add: m_def)
  ultimately have "\<lceil>y\<rceil> \<le> 10 ^ ndigits m" by linarith
  then have "y \<le> of_int (10 ^ ndigits m)" by (simp add: ceiling_le_iff)
  then have "y \<le> 10 ^ ndigits m" by simp
  then have "1 \<le> \<bar>x\<bar> * 10 ^ ndigits m"
    using xpos by (simp add: y_def field_simps)
  then have "1 / 10 ^ ndigits m \<le> \<bar>x\<bar>"
    by (simp add: field_simps)
  moreover have "adjusted x = - int (ndigits m)"
    using False by (simp add: adjusted_def m_def y_def)
  ultimately show ?thesis by (simp add: power_int_minus_divide)
qed

lemma round_half_even_of_int [simp]: "round_half_even (of_int n) = n"
  by (simp add: round_half_even_def)

lemma round_half_even_bound: "\<bar>of_int (round_half_even z) - z\<bar> \<le> 1 / 2"
proof -
  have "of_int \<lfloor>z\<rfloor> \<le> z" "z < of_int \<lfloor>z\<rfloor> + 1" by linarith+
  then show ?thesis
    unfolding round_half_even_def Let_def by (auto simp: abs_le_iff)
qed

lemma round_half_up_bound: "\<bar>of_int (round_half_up z) - z\<bar> \<le> 1 / 2"
proof (cases "0 \<le> z")
  case True
  have "of_int \<lfloor>z + 1 / 2\<rfloor> \<le> z + 1 / 2" "z + 1 / 2 < of_int \<lfloor>z + 1 / 2\<rfloor> + 1"
    by linarith+
  then have "\<bar>of_int \<lfloor>z + 1 / 2\<rfloor> - z\<bar> \<le> 1 / 2" by linarith
  with True show ?thesis by (simp add: round_half_up_def)
next
  case False
  have "of_int \<lfloor>- z + 1 / 2\<rfloor> \<le> - z + 1 / 2" "- z + 1 / 2 < of_int \<lfloor>- z + 1 / 2\<rfloor> + 1"
    by linarith+
  then have "\<bar>- of_int \<lfloor>- z + 1 / 2\<rfloor> - z\<bar> \<le> 1 / 2" by linarith
  with False show ?thesis by (simp add: round_half_up_def)
qed

lemma round_half_up_of_int [simp]: "round_half_up (of_int n) = n"
  unfolding round_half_up_def by (auto simp: floor_unique)

lemma ctx_round_exact:
  assumes int: "x * 10 ^ k \<in> \<int>" and small: "\<bar>x\<bar> * 10 ^ k < 10 ^ 28"
  shows "ctx_round x = x"
proof (cases "x = 0")
  case True
  then show ?thesis by (simp add: ctx_round_def)
next
  case False
  define e where "e = adjusted x"
  have "10 powi e \<le> \<bar>x\<bar>" unfolding e_def by (rule adjusted_lower [OF False])
  moreover have "\<bar>x\<bar> < 10 powi (28 - int k)"
    using small by (simp add: power_int_diff field_simps)
  ultimately have lt: "(10::rat) powi e < 10 powi (28 - int k)" by (rule le_less_trans)
  have "e < 28 - int k"
  proof (rule ccontr)
    assume "\<not> e < 28 - int k"
    then have "28 - int k \<le> e" by simp
    then have "(10::rat) powi (28 - int k) \<le> 10 powi e"
      by (rule power_int_increasing) simp
    with lt show False by simp
  qed
  then have "0 \<le> 27 - e - int k" by simp
  then obtain j :: nat where "27 - e - int k = int j"
    using nonneg_int_cases by blast
  then have j: "27 - e = int k + int j" by simp
  have s: "(10::rat) powi (27 - e) = 10 ^ k * 10 ^ j"
    unfolding j by (simp add: power_int_add power_add)
  obtain n :: int where n: "x * 10 ^ k = of_int n"
    using int by (auto elim: Ints_cases)
  have "x * 10 powi (27 - e) = of_int (n * 10 ^ j)"
    unfolding s using n by (simp add: mult.assoc [symmetric])
  then have "ctx_round x = of_int (n * 10 ^ j) / (10 ^ k * 10 ^ j)"
    using False unfolding ctx_round_def Let_def e_def [symmetric] s [symmetric]
    by (simp only: round_half_even_of_int if_False)
  also have "\<dots> = (x * 10 ^ k) * 10 ^ j / (10 ^ k * 10 ^ j)"
    using n by simp
  also have "\<dots> = x" by simp
  finally show ?thesis .
qed

lemma ctx_round_bound: "\<bar>ctx_round x\<bar> \<le> 2 * \<bar>x\<bar>"
proof (cases "x = 0")
  case True
  then show ?thesis by (simp add: ctx_round_def)
next
  case False
  define s :: rat where "s = 10 powi (27 - adjusted x)"
  have spos: "0 < s" by (simp add: s_def power_int_def)
  have "10 powi adjusted x * s \<le> \<bar>x\<bar> * s"
    using adjusted_lower [OF False] spos by (simp add: mult_right_mono)
  moreover have "10 powi adjusted x * s = (10::rat) ^ 27"
    unfolding s_def by (simp add: power_int_add [symmetric])
  ultimately have big: "1 \<le> \<bar>x * s\<bar>"
    using spos by (simp add: abs_mult)
  have "\<bar>of_int (round_half_even (x * s))\<bar> \<le> \<bar>x * s\<bar> + 1 / 2"
    using round_half_even_bound [of "x * s"] by linarith
  with big have "\<bar>of_int (round_half_even (x * s)) :: rat\<bar> \<le> 2 * \<bar>x * s\<bar>" by linarith
  then have "\<bar>of_int (round_half_even (x * s)) / s\<bar> \<le> 2 * \<bar>x\<bar>"
    using spos by (simp add: abs_mult field_simps)
  then show ?thesis
    using False by (simp add: ctx_round_def Let_def s_def)
qed

lemma is_cents_iff: "is_cents x \<longleftrightarrow> x * 100 \<in> \<int>"
  unfolding is_cents_def by (auto simp: Ints_def)

lemma is_cents_Ints: "is_cents x \<Longrightarrow> x * 10 ^ 2 \<in> \<int>"
  by (simp add: is_cents_iff)

lemma is_cents_diff: "is_cents a \<Longrightarrow> is_cents b \<Longrightarrow> is_cents (a - b)"
  by (simp add: is_cents_iff left_diff_distrib)


lemma is_cents_of_int_div: "is_cents (of_int n / 100)"
  by (simp add: is_cents_iff)

lemma ctx_round_cents:
  assumes "is_cents x" and "\<bar>x\<bar> < 10 ^ 26"
  shows "ctx_round x = x"
proof (rule ctx_round_exact [where k = 2])
  show "x * 10 ^ 2 \<in> \<int>" using assms(1) by (rule is_cents_Ints)
  show "\<bar>x\<bar> * 10 ^ 2 < 10 ^ 28" using assms(2) by simp
qed

lemma quantize_2:
  assumes "\<bar>x\<bar> < 10 ^ 25"
  shows "quantize 2 x = Inr (of_int (round_half_up (x * 100)) / 100)"
proof -
  have "\<bar>of_int (round_half_up (x * 100)) :: rat\<bar> \<le> \<bar>x * 100\<bar> + 1 / 2"
    using round_half_up_bound [of "x * 100"] by linarith
  also have "\<dots> < 10 ^ 28" using assms by (simp add: abs_mult)
  finally have "\<bar>of_int (round_half_up (x * 100)) :: rat\<bar> < of_int (10 ^ 28)" by simp
  then have "\<bar>round_half_up (x * 100)\<bar> < 10 ^ 28"
    by (metis of_int_abs of_int_less_iff)
  then show ?thesis by (simp add: quantize_def Let_def)
qed

section \<open>Exact arithmetic on currency values\<close>

lemma moneyD: "money x \<Longrightarrow> is_cents x" "money x \<Longrightarrow> \<bar>x\<bar> \<le> 10 ^ 15"
  by (simp_all add: money_def)

lemma is_cents_round_cents: "is_cents (round_cents x)"
  by (simp add: round_cents_def is_cents_of_int_div)

lemma round_cents_bound: "\<bar>round_cents x - x\<bar> \<le> 1 / 200"
proof -
  have "\<bar>of_int (round_half_up (x * 100)) - x * 100\<bar> \<le> 1 / 2"
    by (rule round_half_up_bound)
  then show ?thesis by (simp add: round_cents_def field_simps abs_le_iff)
qed

lemma quantize_round_cents:
  "\<bar>x\<bar> < 10 ^ 25 \<Longrightarrow> quantize 2 x = Inr (round_cents x)"
  by (simp add: quantize_2 round_cents_def)

lemma dec_sub_cents:
  "is_cents a \<Longrightarrow> is_cents b \<Longrightarrow> \<bar>a - b\<bar> < 10 ^ 26 \<Longrightarrow> dec_sub a b = a - b"
  unfolding dec_sub_def by (rule ctx_round_cents) (simp_all add: is_cents_diff)








text \<open>The residual pattern: round one share, give the other party the rest.\<close>

lemma residual_exact:
  assumes a: "money a" and x: "\<bar>x\<bar> \<le> 10 ^ 17"
  shows "quantize 2 x = Inr (round_cents x)"
    and "dec_sub a (round_cents x) = a - round_cents x"
proof -
  show "quantize 2 x = Inr (round_cents x)"
    using x by (intro quantize_round_cents) simp
  have "\<bar>round_cents x\<bar> \<le> \<bar>x\<bar> + 1 / 200"
    using round_cents_bound [of x] by linarith
  then have "\<bar>a - round_cents x\<bar> \<le> 10 ^ 15 + 10 ^ 17 + 1 / 200"
    using moneyD(2) [OF a] x by linarith
  then have "\<bar>a - round_cents x\<bar> < 10 ^ 26" by simp
  then show "dec_sub a (round_cents x) = a - round_cents x"
    by (intro dec_sub_cents moneyD(1) [OF a] is_cents_round_cents)
qed

section \<open>Recurring bills\<close>







section \<open>Electricity\<close>

lemma electricity_share_bound:
  assumes "0 < t" "0 \<le> c" "c \<le> t"
  shows "\<bar>dec_div (dec_sub t c) t\<bar> \<le> 4"
proof -
  have "\<bar>dec_sub t c\<bar> \<le> 2 * \<bar>t - c\<bar>"
    unfolding dec_sub_def by (rule ctx_round_bound)
  also have "\<dots> \<le> 2 * t" using assms by simp
  finally have n: "\<bar>dec_sub t c\<bar> \<le> 2 * t" .
  have "\<bar>dec_div (dec_sub t c) t\<bar> \<le> 2 * \<bar>dec_sub t c / t\<bar>"
    unfolding dec_div_def by (rule ctx_round_bound)
  also have "\<dots> = 2 * (\<bar>dec_sub t c\<bar> / t)" using assms(1) by simp
  also have "\<dots> \<le> 2 * (2 * t / t)"
    using n assms(1) by (intro mult_left_mono divide_right_mono) simp_all
  also have "\<dots> = 4" using assms(1) by simp
  finally show ?thesis .
qed

lemma electricity_product_bound:
  assumes "money a" "\<bar>s\<bar> \<le> 4"
  shows "\<bar>dec_mul a s\<bar> \<le> 10 ^ 17"
proof -
  have "\<bar>dec_mul a s\<bar> \<le> 2 * \<bar>a * s\<bar>"
    unfolding dec_mul_def by (rule ctx_round_bound)
  moreover have "\<bar>a\<bar> * \<bar>s\<bar> \<le> 10 ^ 15 * 4"
    using moneyD(2) [OF assms(1)] assms(2) by (intro mult_mono) simp_all
  ultimately show ?thesis by (simp add: abs_mult)
qed

text \<open>
  Claim C2, as the code has it. With total consumption zero the three amounts are zero.
  With positive total consumption, House2 consumption between zero and the total, and a
  bill at currency precision, the House1 amount is the bill times the House1 share of
  the consumption, rounded half up to cents, where the share (total minus House2
  consumption, divided by the total) and the product are taken to 28 significant
  digits; the House2 amount is the bill minus the House1 amount (House2 absorbs the
  rounding remainder); and the two amounts add up to the bill exactly.
\<close>

theorem electricity_split:
  "(total_kwh e = 0 \<longrightarrow>
      lookup_result (calculate_electricity 2 e) ''casa1'' = Some 0
    \<and> lookup_result (calculate_electricity 2 e) ''casa2'' = Some 0
    \<and> lookup_result (calculate_electricity 2 e) ''total'' = Some 0)
   \<and> (0 < total_kwh e \<and> 0 \<le> casa2_kwh e \<and> casa2_kwh e \<le> total_kwh e
       \<and> money (total_bill e) \<longrightarrow>
      lookup_result (calculate_electricity 2 e) ''casa1''
        = Some (round_cents (dec_mul (total_bill e)
                  (dec_div (dec_sub (total_kwh e) (casa2_kwh e)) (total_kwh e))))
    \<and> lookup_result (calculate_electricity 2 e) ''casa2''
        = Some (total_bill e - round_cents (dec_mul (total_bill e)
                  (dec_div (dec_sub (total_kwh e) (casa2_kwh e)) (total_kwh e))))
    \<and> opt_add (lookup_result (calculate_electricity 2 e) ''casa1'')
               (lookup_result (calculate_electricity 2 e) ''casa2'')
        = Some (total_bill e))"
proof (intro conjI impI)
  assume z: "total_kwh e = 0"
  then show "lookup_result (calculate_electricity 2 e) ''casa1'' = Some 0"
    and "lookup_result (calculate_electricity 2 e) ''casa2'' = Some 0"
    and "lookup_result (calculate_electricity 2 e) ''total'' = Some 0"
    by (simp_all add: calculate_electricity_def lookup_result_def)
next
  assume h: "0 < total_kwh e \<and> 0 \<le> casa2_kwh e \<and> casa2_kwh e \<le> total_kwh e
       \<and> money (total_bill e)"
  then have t: "0 < total_kwh e" "0 \<le> casa2_kwh e" "casa2_kwh e \<le> total_kwh e"
    and a: "money (total_bill e)" by blast+
  define x where "x = dec_mul (total_bill e)
                  (dec_div (dec_sub (total_kwh e) (casa2_kwh e)) (total_kwh e))"
  have x: "\<bar>x\<bar> \<le> 10 ^ 17"
    unfolding x_def by (rule electricity_product_bound [OF a electricity_share_bound [OF t]])
  have r: "calculate_electricity 2 e =
             Inr [''casa1'' \<mapsto> round_cents x, ''casa2'' \<mapsto> total_bill e - round_cents x,
                  ''total'' \<mapsto> total_bill e,
                  ''casa1_kwh'' \<mapsto> dec_sub (total_kwh e) (casa2_kwh e),
                  ''casa2_kwh'' \<mapsto> casa2_kwh e]"
    using t(1)
    by (simp add: calculate_electricity_def Let_def x_def [symmetric] residual_exact [OF a x])
  show "lookup_result (calculate_electricity 2 e) ''casa1''
        = Some (round_cents (dec_mul (total_bill e)
                  (dec_div (dec_sub (total_kwh e) (casa2_kwh e)) (total_kwh e))))"
    unfolding r x_def [symmetric] by (simp add: lookup_result_def)
  show "lookup_result (calculate_electricity 2 e) ''casa2''
        = Some (total_bill e - round_cents (dec_mul (total_bill e)
                  (dec_div (dec_sub (total_kwh e) (casa2_kwh e)) (total_kwh e))))"
    unfolding r x_def [symmetric] by (simp add: lookup_result_def)
  show "opt_add (lookup_result (calculate_electricity 2 e) ''casa1'')
               (lookup_result (calculate_electricity 2 e) ''casa2'')
        = Some (total_bill e)"
    unfolding r by (simp add: lookup_result_def opt_add_def)
qed

text \<open>
  The scenario of C2: total consumption 300, House2 consumption 200, bill 150.00 give
  House1 50.00 and House2 100.00. A record with no consumption gives zeros.
\<close>

theorem electricity_split_witness:
  "lookup_result (calculate_electricity 2
      \<lparr>total_kwh = 300, casa2_kwh = 200, total_bill = 150, rate_per_kwh = None\<rparr>) ''casa1''
     = Some 50
   \<and> lookup_result (calculate_electricity 2
      \<lparr>total_kwh = 300, casa2_kwh = 200, total_bill = 150, rate_per_kwh = None\<rparr>) ''casa2''
     = Some 100
   \<and> lookup_result (calculate_electricity 2
      \<lparr>total_kwh = 0, casa2_kwh = 0, total_bill = 150, rate_per_kwh = None\<rparr>) ''casa2''
     = Some 0"
proof -
  have h: "money 150"
    and r: "round_cents (dec_mul 150 (dec_div (dec_sub 300 200) 300)) = 50"
    by code_simp+
  show ?thesis
    using electricity_split
        [of "\<lparr>total_kwh = 300, casa2_kwh = 200, total_bill = 150, rate_per_kwh = None\<rparr>"]
      electricity_split
        [of "\<lparr>total_kwh = 0, casa2_kwh = 0, total_bill = 150, rate_per_kwh = None\<rparr>"]
      h r
    by simp
qed

text \<open>
  C2 as stated fails on a tie: with total consumption 2, House2 consumption 1 and a bill
  of 0.01 the claim gives House2 round-half-up(0.005) = 0.01; the code rounds the House1
  share first, so House1 gets 0.01 and House2 0.00.
\<close>

theorem electricity_house2_counterexample:
  "lookup_result (calculate_electricity 2
      \<lparr>total_kwh = 2, casa2_kwh = 1, total_bill = 1 / 100, rate_per_kwh = None\<rparr>) ''casa2''
   \<noteq> Some (round_cents (1 / 100 * 1 / 2))"
  by code_simp

text \<open>
  The 28 digits matter: with total consumption 132, House2 consumption 113 and a bill of
  0.66 the House1 share is 19/132, the exact product is 0.095 and rounds to 0.10, and
  the code, which multiplies by the share cut to 28 digits, returns 0.09.
\<close>

lemma electricity_context_rounding:
  "lookup_result (calculate_electricity 2
      \<lparr>total_kwh = 132, casa2_kwh = 113, total_bill = 66 / 100, rate_per_kwh = None\<rparr>) ''casa1''
     = Some (9 / 100)
   \<and> round_cents (66 / 100 * ((132 - 113) / 132)) = 10 / 100"
  by code_simp

section \<open>Residual splits add up\<close>












section \<open>Occasional expenses\<close>





text \<open>
  The month calculation does not look at the split method: a fixed expense of 100.00
  stored as 30.00 / 70.00 comes out at the month's 67 percent.
\<close>

lemma calculator_ignores_split_method:
  "calculate_occasional_expenses 2
     [\<lparr>description = ''paint'', amount = 100, split_method = FIXED, casa1_value = 30,
        casa2_value = 70, percentage = None, category = OTHER, is_recurring = False,
        recurrence_months = 1\<rparr>] 67
   = Inr [\<lparr>occ_description = ''paint'', occ_total = 100, occ_casa1 = 33, occ_casa2 = 67,
           occ_method = FIXED, occ_category = OTHER\<rparr>]"
  by code_simp

section \<open>Balances\<close>






section \<open>The month calculation as a whole\<close>

lemma ctx_round_zero [simp]: "ctx_round 0 = 0"
  by (simp add: ctx_round_def)

lemma init_previous_balance:
  "CalculationResult_init [(''previous_balance'', b)] = Inl (TypeError ''previous_balance'')"
  by (simp add: CalculationResult_init_def CalculationResult_fields_def)

text \<open>
  Claim C10. For every month record whose two paid amounts are zero, the record-level
  validation lists the error that at least one payment must be greater than zero, and
  \<open>calculate_month\<close> raises the \<open>ValueError\<close> that carries the validation errors.
\<close>

theorem no_payment_raises:
  assumes "casa1_paid (payments md) = 0" and "casa2_paid (payments md) = 0"
  shows "''At least one payment must be greater than zero'' \<in> set (MonthData_validate md)
       \<and> calculate_month precision md b
           = Inl (ValueError (''Data validation failed: '' @ join '', '' (MonthData_validate md)))"
proof -
  have "total_paid (payments md) = 0"
    using assms by (simp add: total_paid_def dec_add_def)
  then have "''At least one payment must be greater than zero'' \<in> set (Payment_validate (payments md))"
    using assms by (simp add: Payment_validate_def)
  then have m: "''At least one payment must be greater than zero'' \<in> set (MonthData_validate md)"
    by (simp add: MonthData_validate_def)
  then have "MonthData_validate md \<noteq> []" by auto
  then have "calculate_month precision md b
           = Inl (ValueError (''Data validation failed: '' @ join '', '' (MonthData_validate md)))"
    by (simp add: calculate_month_def Let_def)
  with m show ?thesis by simp
qed

text \<open>
  January 2024 with a water bill of 100.00 and no payment: the only validation error is
  the missing payment, and it is the message of the exception.
\<close>

theorem no_payment_raises_witness:
  "calculate_month 2
     \<lparr>year = 2024, month = ''Janeiro'',
       electricity = \<lparr>total_kwh = 300, casa2_kwh = 200, total_bill = 150, rate_per_kwh = None\<rparr>,
       recurring_bills = \<lparr>water = 100, internet = 50, gas = 0, casa2_percentage = 67\<rparr>,
       occasional_expenses = [],
       payments = \<lparr>casa1_paid = 0, casa2_paid = 0\<rparr>,
       is_locked = False, created_at = 0, modified_at = 0\<rparr> 0
   = Inl (ValueError
       ''Data validation failed: At least one payment must be greater than zero'')"
proof -
  have v: "MonthData_validate
     \<lparr>year = 2024, month = ''Janeiro'',
       electricity = \<lparr>total_kwh = 300, casa2_kwh = 200, total_bill = 150, rate_per_kwh = None\<rparr>,
       recurring_bills = \<lparr>water = 100, internet = 50, gas = 0, casa2_percentage = 67\<rparr>,
       occasional_expenses = [],
       payments = \<lparr>casa1_paid = 0, casa2_paid = 0\<rparr>,
       is_locked = False, created_at = 0, modified_at = 0\<rparr>
     = [''At least one payment must be greater than zero'']"
    by code_simp
  show ?thesis
    using no_payment_raises [of
     "\<lparr>year = 2024, month = ''Janeiro'',
       electricity = \<lparr>total_kwh = 300, casa2_kwh = 200, total_bill = 150, rate_per_kwh = None\<rparr>,
       recurring_bills = \<lparr>water = 100, internet = 50, gas = 0, casa2_percentage = 67\<rparr>,
       occasional_expenses = [],
       payments = \<lparr>casa1_paid = 0, casa2_paid = 0\<rparr>,
       is_locked = False, created_at = 0, modified_at = 0\<rparr>" 2 0]
    unfolding v by simp
qed

text \<open>
  \<open>calculate_month\<close> raises for every input: a record that fails validation raises \<open>ValueError\<close>,
  and for a record that passes it the constructor call
  \<open>CalculationResult(previous_balance=...)\<close> raises \<open>TypeError\<close>, because
  \<open>previous_balance\<close> is a read-only property and not a field of the dataclass.
\<close>

lemma calculate_month_raises:
  "calculate_month precision md b =
     (if MonthData_validate md \<noteq> []
      then Inl (ValueError (''Data validation failed: '' @ join '', '' (MonthData_validate md)))
      else Inl (TypeError ''previous_balance''))"
  by (simp add: calculate_month_def Let_def init_previous_balance)

text \<open>
  Had the object been constructed, the first assignment of \<open>_calculate_totals\<close> and of
  \<open>_calculate_balances\<close> would raise as well: the assigned names are properties
  without a setter.
\<close>

lemma calculate_totals_raises:
  "calculate_totals result md = Inl (AttributeError ''casa1_should_pay'')"
  by (simp add: calculate_totals_def set_attr_def CalculationResult_properties_def
      split: prod.splits)

lemma calculate_balances_raises:
  "calculate_balances result pay = Inl (AttributeError ''month_balance'')"
  by (simp add: calculate_balances_def set_attr_def CalculationResult_properties_def
      split: prod.splits)

text \<open>
  Claim C6 at a record that passes validation (January 2024, electricity 300 kWh of
  which House2 200 for 150.00, water 100.00, internet 50.00 at 67 percent, House1 paid
  100.00): validation finds no error, and \<open>calculate_month\<close> raises \<open>TypeError\<close> instead
  of returning a \<open>CalculationResult\<close>.
\<close>

theorem calculate_month_valid_record_raises:
  "MonthData_validate
     \<lparr>year = 2024, month = ''Janeiro'',
       electricity = \<lparr>total_kwh = 300, casa2_kwh = 200, total_bill = 150, rate_per_kwh = None\<rparr>,
       recurring_bills = \<lparr>water = 100, internet = 50, gas = 0, casa2_percentage = 67\<rparr>,
       occasional_expenses = [],
       payments = \<lparr>casa1_paid = 100, casa2_paid = 0\<rparr>,
       is_locked = False, created_at = 0, modified_at = 0\<rparr> = []
   \<and> calculate_month 2
     \<lparr>year = 2024, month = ''Janeiro'',
       electricity = \<lparr>total_kwh = 300, casa2_kwh = 200, total_bill = 150, rate_per_kwh = None\<rparr>,
       recurring_bills = \<lparr>water = 100, internet = 50, gas = 0, casa2_percentage = 67\<rparr>,
       occasional_expenses = [],
       payments = \<lparr>casa1_paid = 100, casa2_paid = 0\<rparr>,
       is_locked = False, created_at = 0, modified_at = 0\<rparr> 0
     = Inl (TypeError ''previous_balance'')"
proof -
  have v: "MonthData_validate
     \<lparr>year = 2024, month = ''Janeiro'',
       electricity = \<lparr>total_kwh = 300, casa2_kwh = 200, total_bill = 150, rate_per_kwh = None\<rparr>,
       recurring_bills = \<lparr>water = 100, internet = 50, gas = 0, casa2_percentage = 67\<rparr>,
       occasional_expenses = [],
       payments = \<lparr>casa1_paid = 100, casa2_paid = 0\<rparr>,
       is_locked = False, created_at = 0, modified_at = 0\<rparr> = []"
    by code_simp
  show ?thesis
    unfolding calculate_month_raises v by simp
qed

section \<open>Validation results\<close>

text \<open>
  The operations of \<open>ValidationResult\<close> keep \<open>is_valid\<close> in step with the error list,
  and a warning changes neither.
\<close>

lemma ValidationResult_operations_consistent:
  "is_valid ValidationResult_init \<longleftrightarrow> errors ValidationResult_init = []"
  "is_valid (add_error fld cd val r) \<longleftrightarrow> errors (add_error fld cd val r) = []"
  "is_valid (merge r other) \<longleftrightarrow> errors (merge r other) = []"
  by (simp_all add: ValidationResult_init_def add_error_def merge_def Let_def)

lemma add_warning_keeps_validity:
  "is_valid (add_warning fld cd val r) = is_valid r"
  "errors (add_warning fld cd val r) = errors r"
  by (simp_all add: add_warning_def)

text \<open>
  Claim C7 at an electricity record with a negative bill (consumption 100, House2 50,
  bill -1.00), validated by \<open>ElectricityValidator\<close> without strict mode and without
  custom rules: the result lists two errors for \<open>total_bill\<close> and its \<open>is_valid\<close> is
  true. The range errors are appended with \<open>result.errors.extend\<close>, which does not
  update \<open>is_valid\<close>.
\<close>

theorem electricity_validator_valid_with_errors:
  "is_valid (ElectricityValidator_validate False []
      (AnElectricityData
         \<lparr>total_kwh = 100, casa2_kwh = 50, total_bill = - 1, rate_per_kwh = None\<rparr>))
   \<and> errors (ElectricityValidator_validate False []
      (AnElectricityData
         \<lparr>total_kwh = 100, casa2_kwh = 50, total_bill = - 1, rate_per_kwh = None\<rparr>))
     = [\<lparr>err_field = ''total_bill'', err_code = ''NEGATIVE_VALUE'', err_severity = ''error'',
          err_value = Some (- 1)\<rparr>,
        \<lparr>err_field = ''total_bill'', err_code = ''VALUE_TOO_LOW'', err_severity = ''error'',
          err_value = Some (- 1)\<rparr>]"
  by code_simp

section \<open>Projection\<close>

text \<open>
  Claim C8 at four months with totals 100, 200, 300 and 400, the most recent last: the
  specification's weighted average is 0.5 * 400 + 0.3 * 300 + 0.2 * 200 = 330; the code
  gives the weight 0.5 to the oldest of the last three months and 0.2 to the most
  recent one and returns 0.5 * 200 + 0.3 * 300 + 0.2 * 400 = 270.
\<close>

theorem projection_weights_reversed:
  "estimated_total (project_next_month
      [Some [''total_expenses'' \<mapsto> 100], Some [''total_expenses'' \<mapsto> 200],
       Some [''total_expenses'' \<mapsto> 300], Some [''total_expenses'' \<mapsto> 400]] 0) = 270
   \<and> spec_projection_total [100, 200, 300, 400] = 330"
  by code_simp

section \<open>Repairing the store\<close>

lemma has_key_append [simp]: "has_key k (d @ e) \<longleftrightarrow> has_key k d \<or> has_key k e"
  by (auto simp: has_key_def)

lemma has_key_Cons [simp]: "has_key k ((k', v) # d) \<longleftrightarrow> k = k' \<or> has_key k d"
  by (auto simp: has_key_def)

lemma has_key_Nil [simp]: "\<not> has_key k []"
  by (simp add: has_key_def)

lemma has_key_if [simp]:
  "has_key k (if c then [(k', v)] else []) \<longleftrightarrow> c \<and> k = k'"
  by simp

lemma repair_month_data_complete:
  "complete d \<Longrightarrow> repair_month_data now y m d = (d, [], False)"
  by (simp add: repair_month_data_def fill_missing_def complete_def Let_def)

lemma fill_missing_fst:
  "fst (fill_missing k v msg st) = fst st @ (if \<not> has_key k (fst st) then [(k, v)] else [])"
  by (cases st) (simp add: fill_missing_def)

lemma filter_Cons_if: "filter P (x # xs) = (if P x then [x] else []) @ filter P xs"
  by simp

lemma repair_month_data_fst:
  "fst (repair_month_data now y m d) = d @ missing_entries now y m d"
proof -
  have "missing_entries now y m d =
      (if \<not> has_key ''electricity'' d then [(''electricity'', default_electricity)] else []) @
      (if \<not> has_key ''recurring_bills'' d then [(''recurring_bills'', default_recurring_bills)] else []) @
      (if \<not> has_key ''payments'' d then [(''payments'', default_payments)] else []) @
      (if \<not> has_key ''occasional_expenses'' d then [(''occasional_expenses'', JList [])] else []) @
      (if \<not> has_key ''created_at'' d then [(''created_at'', JStr (now y m ''created_at''))] else []) @
      (if \<not> has_key ''modified_at'' d then [(''modified_at'', JStr (now y m ''modified_at''))] else [])"
    unfolding missing_entries_def required_defaults_def append.simps
    by (simp only: filter_Cons_if filter.simps(1) append_Nil2 split_conv)
  moreover have "fst (repair_month_data now y m d) = d @
      (if \<not> has_key ''electricity'' d then [(''electricity'', default_electricity)] else []) @
      (if \<not> has_key ''recurring_bills'' d then [(''recurring_bills'', default_recurring_bills)] else []) @
      (if \<not> has_key ''payments'' d then [(''payments'', default_payments)] else []) @
      (if \<not> has_key ''occasional_expenses'' d then [(''occasional_expenses'', JList [])] else []) @
      (if \<not> has_key ''created_at'' d then [(''created_at'', JStr (now y m ''created_at''))] else []) @
      (if \<not> has_key ''modified_at'' d then [(''modified_at'', JStr (now y m ''modified_at''))] else [])"
    unfolding repair_month_data_def Let_def fill_missing_fst
    by (simp cong: if_cong)
  ultimately show ?thesis by simp
qed

lemma complete_filled: "complete (d @ missing_entries now y m d)"
  by (simp add: complete_def missing_entries_def required_defaults_def)

lemma repair_months_clean:
  "list_all clean_month ms \<Longrightarrow> repair_months now y ms = (ms, [], [], False)"
proof (induction ms)
  case Nil
  then show ?case by simp
next
  case (Cons e ms)
  obtain m v where e: "e = (m, v)" by (cases e)
  from Cons.prems have "clean_month (m, v)" and rest: "list_all clean_month ms"
    by (simp_all add: e)
  then obtain d where v: "v = JDict d" and d: "complete d" and m: "m \<in> set months_order"
    by (auto simp: clean_month_def split: json.splits)
  show ?case
    using Cons.IH [OF rest] m by (simp add: e v repair_month_data_complete [OF d])
qed

lemma repair_months_result:
  assumes "repair_months now y ms = (ms', invalid, msgs, made)"
  shows "\<forall>e \<in> set ms'. fst e \<in> set invalid \<or> clean_month e"
  using assms
proof (induction ms arbitrary: ms' invalid msgs made)
  case Nil
  then show ?case by simp
next
  case (Cons e ms)
  obtain m v where e: "e = (m, v)" by (cases e)
  obtain r i g b where rest: "repair_months now y ms = (r, i, g, b)"
    by (cases "repair_months now y ms") auto
  note IH = Cons.IH [OF rest]
  show ?case
  proof (cases "m \<in> set months_order \<and> is_dict v")
    case True
    then obtain d where v: "v = JDict d" by (auto simp: is_dict_def split: json.splits)
    obtain d' g' b' where rm: "repair_month_data now y m d = (d', g', b')"
      by (cases "repair_month_data now y m d") auto
    have "d' = d @ missing_entries now y m d"
      using repair_month_data_fst [of now y m d] rm by simp
    then have c: "clean_month (m, JDict d')"
      using True by (simp add: clean_month_def complete_filled)
    have step: "ms' = (m, JDict d') # r" "invalid = i"
      using Cons.prems True by (simp_all add: e v rest rm)
    show ?thesis
      unfolding step
    proof
      fix x assume "x \<in> set ((m, JDict d') # r)"
      then consider "x = (m, JDict d')" | "x \<in> set r" by auto
      then show "fst x \<in> set i \<or> clean_month x"
      proof cases
        case 1
        with c show ?thesis by simp
      next
        case 2
        with IH show ?thesis by blast
      qed
    qed
  next
    case False
    have step: "ms' = (m, v) # r" "invalid = m # i"
      using Cons.prems False
      by (auto simp: e rest is_dict_def split: json.splits if_splits)
    show ?thesis
      unfolding step
    proof
      fix x assume "x \<in> set ((m, v) # r)"
      then consider "x = (m, v)" | "x \<in> set r" by auto
      then show "fst x \<in> set (m # i) \<or> clean_month x"
      proof cases
        case 1
        then show ?thesis by simp
      next
        case 2
        with IH have "fst x \<in> set i \<or> clean_month x" by blast
        then show ?thesis by auto
      qed
    qed
  qed
qed

lemma repair_year_clean_result: "list_all clean_month (fst (repair_year now y ms))"
proof -
  obtain r i g b where rm: "repair_months now y ms = (r, i, g, b)"
    by (cases "repair_months now y ms") auto
  from repair_months_result [OF rm] show ?thesis
    by (auto simp: repair_year_def rm list_all_iff)
qed

lemma repair_year_clean:
  "list_all clean_month ms \<Longrightarrow> repair_year now y ms = (ms, [], False)"
  by (simp add: repair_year_def repair_months_clean)

lemma repair_years_keys: "map fst (fst (repair_years now s)) = map fst s"
  by (induction s) (auto split: prod.splits)

lemma repair_years_clean_result:
  "list_all (\<lambda>e. list_all clean_month (snd e)) (fst (repair_years now s))"
proof (induction s)
  case Nil
  then show ?case by simp
next
  case (Cons e s)
  obtain y ms where e: "e = (y, ms)" by (cases e)
  obtain ms' g b where ry: "repair_year now y ms = (ms', g, b)"
    by (cases "repair_year now y ms") auto
  obtain s' g' b' where rs: "repair_years now s = (s', g', b')"
    by (cases "repair_years now s") auto
  have "list_all clean_month ms'"
    using repair_year_clean_result [of now y ms] by (simp add: ry)
  moreover have "list_all (\<lambda>e. list_all clean_month (snd e)) s'"
    using Cons by (simp add: rs)
  ultimately show ?case by (simp add: e ry rs)
qed

lemma repair_years_clean:
  "list_all (\<lambda>e. list_all clean_month (snd e)) s \<Longrightarrow> repair_years now s = (s, [], False)"
proof (induction s)
  case Nil
  then show ?case by simp
next
  case (Cons e s)
  obtain y ms where e: "e = (y, ms)" by (cases e)
  from Cons.prems have "list_all clean_month ms"
    and "list_all (\<lambda>e. list_all clean_month (snd e)) s" by (simp_all add: e)
  then show ?case
    using Cons.IH by (simp add: e repair_year_clean)
qed

lemma clean_store_iff:
  "clean_store s \<longleftrightarrow>
     (\<forall>y \<in> set (map fst s). 2000 \<le> y \<and> y \<le> 2100)
     \<and> list_all (\<lambda>e. list_all clean_month (snd e)) s"
  by (auto simp: clean_store_def list_all_iff)

lemma repair_data_years:
  "map fst (cache (fst (repair_data now dm)))
     = filter (\<lambda>y. 2000 \<le> y \<and> y \<le> 2100) (map fst (cache dm))"
proof -
  define bad where "bad = filter (\<lambda>y. y < 2000 \<or> y > 2100) (map fst (cache dm))"
  define kept where "kept = filter (\<lambda>(y, year_data). y \<notin> set bad) (cache dm)"
  have "map fst kept = filter (\<lambda>y. y \<notin> set bad) (map fst (cache dm))"
    by (simp add: kept_def filter_map comp_def case_prod_unfold)
  also have "\<dots> = filter (\<lambda>y. 2000 \<le> y \<and> y \<le> 2100) (map fst (cache dm))"
    by (rule filter_cong) (auto simp: bad_def)
  finally have k: "map fst kept = filter (\<lambda>y. 2000 \<le> y \<and> y \<le> 2100) (map fst (cache dm))" .
  have "cache (fst (repair_data now dm)) = fst (repair_years now kept)"
    by (simp add: repair_data_def Let_def bad_def [symmetric] kept_def [symmetric]
        split: prod.splits)
  then show ?thesis by (simp add: repair_years_keys k)
qed

lemma repair_data_clean_result: "clean_store (cache (fst (repair_data now dm)))"
proof -
  define bad where "bad = filter (\<lambda>y. y < 2000 \<or> y > 2100) (map fst (cache dm))"
  define kept where "kept = filter (\<lambda>(y, year_data). y \<notin> set bad) (cache dm)"
  have c: "cache (fst (repair_data now dm)) = fst (repair_years now kept)"
    by (simp add: repair_data_def Let_def bad_def [symmetric] kept_def [symmetric]
        split: prod.splits)
  have "\<forall>y \<in> set (map fst (cache (fst (repair_data now dm)))). 2000 \<le> y \<and> y \<le> 2100"
    unfolding repair_data_years by simp
  moreover have "list_all (\<lambda>e. list_all clean_month (snd e))
                   (cache (fst (repair_data now dm)))"
    unfolding c by (rule repair_years_clean_result)
  ultimately show ?thesis
    unfolding clean_store_iff by blast
qed

lemma repair_data_clean:
  assumes "clean_store (cache dm)"
  shows "repair_data now dm = (dm, True, [])"
proof -
  have bad: "filter (\<lambda>y. y < 2000 \<or> y > 2100) (map fst (cache dm)) = []"
    using assms unfolding clean_store_iff by (auto simp: filter_empty_conv)
  have months: "list_all (\<lambda>e. list_all clean_month (snd e)) (cache dm)"
    using assms unfolding clean_store_iff by blast
  show ?thesis
    by (simp add: repair_data_def Let_def bad repair_years_clean [OF months])
qed

lemma repair_months_dicts:
  assumes "list_all (\<lambda>e. is_dict (snd e)) ms"
  shows "fst (repair_months now y ms)
           = map (\<lambda>e. if fst e \<in> set months_order then (fst e, filled now y (fst e) (snd e)) else e) ms
       \<and> fst (snd (repair_months now y ms)) = filter (\<lambda>m. m \<notin> set months_order) (map fst ms)"
  using assms
proof (induction ms)
  case Nil
  then show ?case by simp
next
  case (Cons e ms)
  obtain m v where e: "e = (m, v)" by (cases e)
  from Cons.prems obtain d where v: "v = JDict d"
    by (auto simp: e is_dict_def split: json.splits)
  from Cons.prems have "list_all (\<lambda>e. is_dict (snd e)) ms" by simp
  note IH = Cons.IH [OF this]
  obtain r i g b where rest: "repair_months now y ms = (r, i, g, b)"
    by (cases "repair_months now y ms") auto
  obtain d' g' b' where rm: "repair_month_data now y m d = (d', g', b')"
    by (cases "repair_month_data now y m d") auto
  have d': "d' = d @ missing_entries now y m d"
    using repair_month_data_fst [of now y m d] rm by simp
  show ?case
    using IH by (simp add: e v rest rm d' filled_def)
qed

lemma repair_year_dicts:
  assumes "list_all (\<lambda>e. is_dict (snd e)) ms"
  shows "fst (repair_year now y ms)
           = map (\<lambda>(m, v). (m, filled now y m v)) (filter (\<lambda>(m, v). m \<in> set months_order) ms)"
proof -
  obtain r i g b where rest: "repair_months now y ms = (r, i, g, b)"
    by (cases "repair_months now y ms") auto
  define f where "f = (\<lambda>e :: string \<times> json.
      if fst e \<in> set months_order then (fst e, filled now y (fst e) (snd e)) else e)"
  have r: "r = map f ms" and i: "i = filter (\<lambda>m. m \<notin> set months_order) (map fst ms)"
    using repair_months_dicts [OF assms, of now y] by (simp_all add: rest f_def)
  have ff: "fst (f e) = fst e" for e by (simp add: f_def)
  have "fst (repair_year now y ms) = filter (\<lambda>e. fst e \<notin> set i) (map f ms)"
    by (simp add: repair_year_def rest r case_prod_unfold)
  also have "\<dots> = map f (filter (\<lambda>e. fst e \<notin> set i) ms)"
    by (simp add: filter_map comp_def ff)
  also have "filter (\<lambda>e. fst e \<notin> set i) ms = filter (\<lambda>e. fst e \<in> set months_order) ms"
    by (rule filter_cong) (auto simp: i)
  also have "map f (filter (\<lambda>e. fst e \<in> set months_order) ms)
           = map (\<lambda>e. (fst e, filled now y (fst e) (snd e))) (filter (\<lambda>e. fst e \<in> set months_order) ms)"
    by (rule map_cong) (auto simp: f_def)
  finally show ?thesis by (simp add: case_prod_unfold)
qed

lemma repair_years_dicts:
  assumes "list_all (\<lambda>e. list_all (\<lambda>e. is_dict (snd e)) (snd e)) s"
  shows "fst (repair_years now s)
           = map (\<lambda>(y, ms). (y, map (\<lambda>(m, v). (m, filled now y m v))
                                   (filter (\<lambda>(m, v). m \<in> set months_order) ms))) s"
  using assms
proof (induction s)
  case Nil
  then show ?case by simp
next
  case (Cons e s)
  obtain y ms where e: "e = (y, ms)" by (cases e)
  from Cons.prems have ms: "list_all (\<lambda>e. is_dict (snd e)) ms"
    and "list_all (\<lambda>e. list_all (\<lambda>e. is_dict (snd e)) (snd e)) s" by (simp_all add: e)
  note IH = Cons.IH [OF this(2)]
  obtain ms' g b where ry: "repair_year now y ms = (ms', g, b)"
    by (cases "repair_year now y ms") auto
  obtain s' g' b' where rs: "repair_years now s = (s', g', b')"
    by (cases "repair_years now s") auto
  have "ms' = map (\<lambda>(m, v). (m, filled now y m v)) (filter (\<lambda>(m, v). m \<in> set months_order) ms)"
    using repair_year_dicts [OF ms, of now y] by (simp add: ry)
  then show ?case
    using IH by (simp add: e ry rs)
qed

lemma repair_data_dicts:
  assumes "all_months_are_dicts (cache dm)"
  shows "cache (fst (repair_data now dm)) = spec_repair now (cache dm)"
proof -
  define bad where "bad = filter (\<lambda>y. y < 2000 \<or> y > 2100) (map fst (cache dm))"
  define kept where "kept = filter (\<lambda>(y, year_data). y \<notin> set bad) (cache dm)"
  have c: "cache (fst (repair_data now dm)) = fst (repair_years now kept)"
    by (simp add: repair_data_def Let_def bad_def [symmetric] kept_def [symmetric]
        split: prod.splits)
  have k: "kept = filter (\<lambda>(y, year_data). 2000 \<le> y \<and> y \<le> 2100) (cache dm)"
    unfolding kept_def by (rule filter_cong) (force simp: bad_def)+
  have "list_all (\<lambda>e. list_all (\<lambda>e. is_dict (snd e)) (snd e)) (cache dm)"
    using assms by (simp add: all_months_are_dicts_def case_prod_unfold)
  then have "list_all (\<lambda>e. list_all (\<lambda>e. is_dict (snd e)) (snd e)) kept"
    unfolding k by (fastforce simp: list_all_iff)
  from repair_years_dicts [OF this] show ?thesis
    unfolding c by (simp add: spec_repair_def k)
qed

text \<open>
  Claim C9. For every store, the years that \<open>repair_data\<close> keeps are exactly those in
  \<open>[2000, 2100]\<close>. When every stored month is a dictionary, as in every store that was
  loaded or saved, the months kept are exactly those with a calendar name, each
  followed by the defaults of the sub-records it lacks (amounts zero, House2 percentage
  67, no occasional expenses). A second repair, whatever the clock reads, changes
  nothing and reports no action.
\<close>

theorem repair_data_exact_and_idempotent:
  "map fst (cache (fst (repair_data now dm)))
     = filter (\<lambda>y. 2000 \<le> y \<and> y \<le> 2100) (map fst (cache dm))
   \<and> (all_months_are_dicts (cache dm) \<longrightarrow>
        cache (fst (repair_data now dm)) = spec_repair now (cache dm))
   \<and> repair_data now' (fst (repair_data now dm)) = (fst (repair_data now dm), True, [])"
  using repair_data_years [of now dm] repair_data_dicts [of dm now]
    repair_data_clean [OF repair_data_clean_result, of now' now dm]
  by blast

text \<open>
  A store with the year 1999, and in 2024 a January that has its electricity record
  only and a month named Smarch: the year and the month are removed, January gets the
  three missing sub-records and the time stamps, and a second repair returns the same
  store with no message.
\<close>

theorem repair_data_exact_and_idempotent_witness:
  "cache (fst (repair_data fixed_clock
     \<lparr>cache =
        [(1999, [(''Janeiro'', JDict [])]),
         (2024, [(''Janeiro'', JDict [(''electricity'', JDict [(''total_kwh'', JNum 300)])]),
                 (''Smarch'', JDict [])])],
      dirty = False\<rparr>))
   = [(2024,
       [(''Janeiro'',
         JDict
          [(''electricity'', JDict [(''total_kwh'', JNum 300)]),
           (''recurring_bills'',
            JDict [(''water'', JNum 0), (''internet'', JNum 0), (''casa2_percentage'', JNum 67)]),
           (''payments'',
            JDict [(''casa1_paid'', JNum 0), (''casa2_paid'', JNum 0),
                   (''payment_method'', JStr []), (''notes'', JStr [])]),
           (''occasional_expenses'', JList []),
           (''created_at'', JStr ''2024-01-01T00:00:00''),
           (''modified_at'', JStr ''2024-01-01T00:00:00'')])])]
   \<and> snd (repair_data fixed_clock (fst (repair_data fixed_clock
     \<lparr>cache =
        [(1999, [(''Janeiro'', JDict [])]),
         (2024, [(''Janeiro'', JDict [(''electricity'', JDict [(''total_kwh'', JNum 300)])]),
                 (''Smarch'', JDict [])])],
      dirty = False\<rparr>))) = (True, [])"
proof -
  have h: "all_months_are_dicts
        [(1999, [(''Janeiro'', JDict [])]),
         (2024, [(''Janeiro'', JDict [(''electricity'', JDict [(''total_kwh'', JNum 300)])]),
                 (''Smarch'', JDict [])])]"
    by code_simp
  have s: "spec_repair fixed_clock
        [(1999, [(''Janeiro'', JDict [])]),
         (2024, [(''Janeiro'', JDict [(''electricity'', JDict [(''total_kwh'', JNum 300)])]),
                 (''Smarch'', JDict [])])]
     = [(2024,
       [(''Janeiro'',
         JDict
          [(''electricity'', JDict [(''total_kwh'', JNum 300)]),
           (''recurring_bills'',
            JDict [(''water'', JNum 0), (''internet'', JNum 0), (''casa2_percentage'', JNum 67)]),
           (''payments'',
            JDict [(''casa1_paid'', JNum 0), (''casa2_paid'', JNum 0),
                   (''payment_method'', JStr []), (''notes'', JStr [])]),
           (''occasional_expenses'', JList []),
           (''created_at'', JStr ''2024-01-01T00:00:00''),
           (''modified_at'', JStr ''2024-01-01T00:00:00'')])])]"
    by code_simp
  show ?thesis
    using repair_data_exact_and_idempotent [of fixed_clock
     "\<lparr>cache =
        [(1999, [(''Janeiro'', JDict [])]),
         (2024, [(''Janeiro'', JDict [(''electricity'', JDict [(''total_kwh'', JNum 300)])]),
                 (''Smarch'', JDict [])])],
      dirty = False\<rparr>" fixed_clock] h s
    by simp
qed

text \<open>
  A month whose value is not a dictionary is removed even under a calendar name; the
  loader never stores such a month.
\<close>

lemma repair_removes_non_dict_month:
  "cache (fst (repair_data fixed_clock
     \<lparr>cache = [(2024, [(''Maio'', JNum 3)])], dirty = False\<rparr>)) = [(2024, [])]"
  by code_simp

end
